theory Spec2Isabelle
  imports Main "HOL-Library.Sublist"
begin

section \<open>Values, errors and strings\<close>

text \<open>
  The TypeScript sources pass events around as untyped objects (\<^verbatim>\<open>event: any\<close>), so
  events are modelled as JSON-like values. An object is an association list; a
  property read returns \<open>JUndefined\<close> for an absent key, as in JavaScript.
  Numbers are modelled as integers: the only numbers the command pipeline
  produces itself are the literal \<^verbatim>\<open>0\<close> amounts of the handler.
\<close>

datatype json =
    JUndefined
  | JNull
  | JBool bool
  | JNum int
  | JStr string
  | JArr "json list"
  | JObj "(string \<times> json) list"

text \<open>
  A thrown JavaScript error. \<open>Error\<close> is \<^verbatim>\<open>new Error(msg)\<close>; \<open>TypeError\<close> is
  what the runtime raises when a method is called on a value that lacks it.
\<close>

datatype error = Error string | TypeError string

fun message :: "error \<Rightarrow> string" where
  "message (Error m) = m"
| "message (TypeError m) = m"

text \<open>Property read \<^verbatim>\<open>v.k\<close> on a value that passed the \<^verbatim>\<open>typeof v === 'object'\<close> test.\<close>

fun getProp :: "json \<Rightarrow> string \<Rightarrow> json" where
  "getProp (JObj kvs) k = (case map_of kvs k of None \<Rightarrow> JUndefined | Some v \<Rightarrow> v)"
| "getProp _ k = JUndefined"

text \<open>JavaScript truthiness, the test behind \<^verbatim>\<open>!v\<close> and \<^verbatim>\<open>a || b\<close>.\<close>

fun truthy :: "json \<Rightarrow> bool" where
  "truthy JUndefined = False"
| "truthy JNull = False"
| "truthy (JBool b) = b"
| "truthy (JNum n) = (n \<noteq> 0)"
| "truthy (JStr s) = (s \<noteq> [])"
| "truthy (JArr _) = True"
| "truthy (JObj _) = True"

text \<open>\<^verbatim>\<open>typeof v === 'object'\<close>: true of objects, arrays and \<^verbatim>\<open>null\<close>.\<close>

fun typeof_object :: "json \<Rightarrow> bool" where
  "typeof_object JNull = True"
| "typeof_object (JArr _) = True"
| "typeof_object (JObj _) = True"
| "typeof_object _ = False"

text \<open>\<^verbatim>\<open>s.includes(pat)\<close>: \<open>pat\<close> occurs in \<open>s\<close> as a contiguous substring.\<close>

fun str_includes :: "string \<Rightarrow> string \<Rightarrow> bool" where
  "str_includes [] pat = (pat = [])"
| "str_includes (c # cs) pat = (prefix pat (c # cs) \<or> str_includes cs pat)"

text \<open>
  \<^verbatim>\<open>s.replace(pat, rep)\<close> with a string pattern: only the first occurrence is
  replaced.
\<close>

fun replace_first :: "string \<Rightarrow> string \<Rightarrow> string \<Rightarrow> string" where
  "replace_first pat rep [] = (if pat = [] then rep else [])"
| "replace_first pat rep (c # cs) =
     (if prefix pat (c # cs) then rep @ drop (length pat) (c # cs)
      else c # replace_first pat rep cs)"

text \<open>\<^verbatim>\<open>s.split(sep)\<close> for a one-character separator; \<^verbatim>\<open>''.split('_')\<close> is \<^verbatim>\<open>['']\<close>.\<close>

fun splitStr :: "char \<Rightarrow> string \<Rightarrow> string list" where
  "splitStr sep [] = [] # []"
| "splitStr sep (c # cs) =
     (if c = sep then [] # splitStr sep cs
      else (case splitStr sep cs of
              [] \<Rightarrow> [c] # []
            | w # ws \<Rightarrow> (c # w) # ws))"

text \<open>
  Case mapping on ASCII letters. Schema and event-type names are ASCII; other
  characters are left as they are.
\<close>

definition is_upper :: "char \<Rightarrow> bool" where
  "is_upper c = (65 \<le> (of_char c :: nat) \<and> (of_char c :: nat) \<le> 90)"

definition is_lower :: "char \<Rightarrow> bool" where
  "is_lower c = (97 \<le> (of_char c :: nat) \<and> (of_char c :: nat) \<le> 122)"

definition is_digit :: "char \<Rightarrow> bool" where
  "is_digit c = (48 \<le> (of_char c :: nat) \<and> (of_char c :: nat) \<le> 57)"

definition toLowerChar :: "char \<Rightarrow> char" where
  "toLowerChar c = (if is_upper c then char_of ((of_char c :: nat) + 32) else c)"

definition toUpperChar :: "char \<Rightarrow> char" where
  "toUpperChar c = (if is_lower c then char_of ((of_char c :: nat) - 32) else c)"

definition toLowerCase :: "string \<Rightarrow> string" where
  "toLowerCase s = map toLowerChar s"

text \<open>
  Template-literal rendering of an integer-valued number: decimal digits, with
  a leading minus sign for a negative value.
\<close>

fun digits :: "nat \<Rightarrow> string" where
  "digits n = (if n < 10 then [char_of (48 + n)]
               else digits (n div 10) @ [char_of (48 + n mod 10)])"

declare digits.simps [simp del]

definition number_toString :: "int \<Rightarrow> string" where
  "number_toString i = (if i < 0 then CHR ''-'' # digits (nat (- i)) else digits (nat i))"

section \<open>Command idempotency store\<close>

text \<open>
  \<^verbatim>\<open>CommandIdempotencyStore\<close> keeps a \<^verbatim>\<open>Map<string, CommandRecord>\<close>. Timestamps are
  the ISO strings the clock hands out.
\<close>

record CommandRecord =
  rec_command_id :: string
  rec_command_type :: string
  processed_at :: string
  result_event_id :: "string option"

type_synonym store = "string \<rightharpoonup> CommandRecord"

definition isProcessed :: "store \<Rightarrow> string \<Rightarrow> bool" where
  "isProcessed s command_id = (s command_id \<noteq> None)"

definition getRecord :: "store \<Rightarrow> string \<Rightarrow> CommandRecord option" where
  "getRecord s command_id = s command_id"

text \<open>
  \<^verbatim>\<open>markProcessed\<close> throws on a key that is present and otherwise stores a new
  record stamped with the current time \<open>now\<close>. The store is returned in both
  cases, so that what a failed call leaves behind can be stated.
\<close>

definition markProcessed ::
  "store \<Rightarrow> string \<Rightarrow> string \<Rightarrow> string option \<Rightarrow> string \<Rightarrow> (error + unit) \<times> store" where
  "markProcessed s command_id command_type res_event_id now =
     (if isProcessed s command_id
      then (Inl (Error (''Command '' @ command_id @ '' already processed'')), s)
      else (Inr (),
            s(command_id \<mapsto> \<lparr>rec_command_id = command_id,
                               rec_command_type = command_type,
                               processed_at = now,
                               result_event_id = res_event_id\<rparr>)))"

definition count :: "store \<Rightarrow> nat" where
  "count s = card (dom s)"

definition clear :: "store \<Rightarrow> store" where
  "clear s = Map.empty"

section \<open>Schema registry and emission gate\<close>

text \<open>
  What the process reads from its surroundings. The schema directory is not part
  of the sources, so the registry is a parameter: \<open>getSchema rt key\<close> is what
  \<^verbatim>\<open>ajv.getSchema(key)\<close> returns (\<open>None\<close> for \<^verbatim>\<open>undefined\<close>), and a compiled schema
  maps an event to \<open>None\<close> when it validates and to \<open>Some errors\<close>, the text of
  \<^verbatim>\<open>ajv.errorsText\<close>, when it does not. \<open>uuid_source\<close> and \<open>clock\<close> give the
  result of the n-th call of \<^verbatim>\<open>uuidv4()\<close> and of \<^verbatim>\<open>new Date().toISOString()\<close>.
\<close>

record runtime =
  getSchema :: "string \<Rightarrow> (json \<Rightarrow> string option) option"
  uuid_source :: "nat \<Rightarrow> string"
  clock :: "nat \<Rightarrow> string"

text \<open>\<^verbatim>\<open>schemaFiles\<close>: the directory listing, filtered by \<^verbatim>\<open>f.endsWith('.json')\<close>.\<close>

definition schemaFiles :: "string list \<Rightarrow> string list" where
  "schemaFiles dir = filter (\<lambda>f. suffix ''.json'' f) dir"

text \<open>
  \<^verbatim>\<open>str.replace(/([A-Z])/g, '_$1').toLowerCase().replace(/^_/, '')\<close>
\<close>

definition toSnakeCase :: "string \<Rightarrow> string" where
  "toSnakeCase str =
     (let marked = concat (map (\<lambda>c. if is_upper c then [CHR ''_'', c] else [c]) str);
          lowered = toLowerCase marked
      in (case lowered of
            [] \<Rightarrow> []
          | c # cs \<Rightarrow> if c = CHR ''_'' then cs else lowered))"

text \<open>
  \<^verbatim>\<open>str.split('_').map(word => word.charAt(0).toUpperCase() + word.slice(1)).join('')\<close>
\<close>

definition capitalize :: "string \<Rightarrow> string" where
  "capitalize word = (case word of [] \<Rightarrow> [] | c # cs \<Rightarrow> toUpperChar c # cs)"

definition toPascalCase :: "string \<Rightarrow> string" where
  "toPascalCase str = concat (map capitalize (splitStr CHR ''_'' str))"

definition getSupportedEventTypes :: "string list \<Rightarrow> string list" where
  "getSupportedEventTypes files =
     map (\<lambda>f. toPascalCase (replace_first ''.v1.json'' [] f))
       (filter (\<lambda>f. f \<noteq> ''envelope.v1.json'') files)"

text \<open>
  \<^verbatim>\<open>validateEvent\<close> returns normally or throws. A truthy \<^verbatim>\<open>event_type\<close> that is not
  a string has no \<^verbatim>\<open>replace\<close> method, so \<^verbatim>\<open>toSnakeCase\<close> raises a \<open>TypeError\<close>.
\<close>

definition validateEvent :: "runtime \<Rightarrow> json \<Rightarrow> error + unit" where
  "validateEvent rt event =
     (if \<not> truthy event \<or> \<not> typeof_object event
      then Inl (Error ''Event must be an object'')
      else if \<not> truthy (getProp event ''event_type'')
      then Inl (Error ''Event missing event_type field'')
      else (case getProp event ''event_type'' of
              JStr event_type \<Rightarrow>
                (let schemaName = toSnakeCase event_type @ ''.v1.json'' in
                 case getSchema rt schemaName of
                   None \<Rightarrow>
                     Inl (Error (''No schema registered for '' @ event_type
                                 @ '' (expected '' @ schemaName @ '')''))
                 | Some validate \<Rightarrow>
                     (case validate event of
                        Some errors \<Rightarrow>
                          Inl (Error (''Schema violation for '' @ event_type @ '': '' @ errors))
                      | None \<Rightarrow> Inr ()))
            | _ \<Rightarrow> Inl (TypeError ''str.replace is not a function'')))"

text \<open>
  The publisher is the module variable set by \<^verbatim>\<open>setPublisher\<close> (\<open>None\<close> while it is
  \<^verbatim>\<open>null\<close>). \<^verbatim>\<open>publish\<close> acts on a transport state \<open>'p\<close> and resolves or rejects.
  The third component of the result lists the events handed to \<^verbatim>\<open>publish\<close>.
\<close>

type_synonym 'p publisher = "json \<Rightarrow> 'p \<Rightarrow> (error + unit) \<times> 'p"

definition emitEvent ::
  "runtime \<Rightarrow> 'p publisher option \<Rightarrow> json \<Rightarrow> 'p \<Rightarrow> (error + unit) \<times> 'p \<times> json list" where
  "emitEvent rt publisher event p =
     (case validateEvent rt event of
        Inl e \<Rightarrow> (Inl e, p, [])
      | Inr _ \<Rightarrow>
          (case publisher of
             None \<Rightarrow>
               (Inl (Error ''Event publisher not configured. Call setPublisher() first.''), p, [])
           | Some impl \<Rightarrow> (case impl event p of (r, p') \<Rightarrow> (r, p', [event]))))"

fun emitEvents ::
  "runtime \<Rightarrow> 'p publisher option \<Rightarrow> json list \<Rightarrow> 'p \<Rightarrow> (error + unit) \<times> 'p \<times> json list" where
  "emitEvents rt publisher [] p = (Inr (), p, [])"
| "emitEvents rt publisher (event # events) p =
     (case emitEvent rt publisher event p of
        (Inl e, p', sent) \<Rightarrow> (Inl e, p', sent)
      | (Inr _, p', sent) \<Rightarrow>
          (case emitEvents rt publisher events p' of
             (r, p'', sent') \<Rightarrow> (r, p'', sent @ sent')))"

section \<open>Process state\<close>

text \<open>
  The state shared by the handler, the store singleton and the domain logic:
  the store's map, how many UUIDs and clock readings have been drawn, and the
  domain state \<open>env\<close> of whatever \<^verbatim>\<open>validate\<close> and \<^verbatim>\<open>execute\<close> work on.

  What a call does besides changing this state is returned as a list of
  effects, in order: the abstract methods it invoked, the store write it
  attempted and the events it wrote with \<^verbatim>\<open>console.log\<close>.
\<close>

record 'e world =
  processedCommands :: store
  uuid_calls :: nat
  clock_reads :: nat
  env :: 'e

datatype effect = Validate | Execute | MarkProcessed | ConsoleLog json

text \<open>The three parts of what a call returns: its result, the state it leaves, its effects.\<close>

definition result_of :: "'r \<times> 'w \<times> 'f \<Rightarrow> 'r" where
  "result_of x = fst x"

definition world_of :: "'r \<times> 'w \<times> 'f \<Rightarrow> 'w" where
  "world_of x = fst (snd x)"

definition effects_of :: "'r \<times> 'w \<times> 'f \<Rightarrow> 'f" where
  "effects_of x = snd (snd x)"

definition uuidv4 :: "runtime \<Rightarrow> 'e world \<Rightarrow> string \<times> 'e world" where
  "uuidv4 rt w = (uuid_source rt (uuid_calls w), w\<lparr>uuid_calls := Suc (uuid_calls w)\<rparr>)"

definition new_Date :: "runtime \<Rightarrow> 'e world \<Rightarrow> string \<times> 'e world" where
  "new_Date rt w = (clock rt (clock_reads w), w\<lparr>clock_reads := Suc (clock_reads w)\<rparr>)"

text \<open>
  \<^verbatim>\<open>markProcessed\<close> on the shared store: \<^verbatim>\<open>new Date()\<close> is evaluated only when the
  key is absent.
\<close>

definition store_markProcessed ::
  "runtime \<Rightarrow> string \<Rightarrow> string \<Rightarrow> string option \<Rightarrow> 'e world \<Rightarrow> (error + unit) \<times> 'e world" where
  "store_markProcessed rt command_id command_type res_event_id w =
     (case markProcessed (processedCommands w) command_id command_type res_event_id
             (clock rt (clock_reads w)) of
        (Inl e, s) \<Rightarrow> (Inl e, w)
      | (Inr u, s) \<Rightarrow>
          (Inr u, w\<lparr>processedCommands := s, clock_reads := Suc (clock_reads w)\<rparr>))"

section \<open>CommandRejected emitter\<close>

datatype RejectionReason =
    DUPLICATE_COMMAND
  | INVALID_SCHEMA
  | BUSINESS_RULE_VIOLATION
  | INSUFFICIENT_FUNDS
  | INVALID_STATE_TRANSITION
  | AUTHORIZATION_FAILED
  | RATE_LIMIT_EXCEEDED

text \<open>The string value of each member of the enum.\<close>

fun reason_value :: "RejectionReason \<Rightarrow> string" where
  "reason_value DUPLICATE_COMMAND = ''DUPLICATE_COMMAND''"
| "reason_value INVALID_SCHEMA = ''INVALID_SCHEMA''"
| "reason_value BUSINESS_RULE_VIOLATION = ''BUSINESS_RULE_VIOLATION''"
| "reason_value INSUFFICIENT_FUNDS = ''INSUFFICIENT_FUNDS''"
| "reason_value INVALID_STATE_TRANSITION = ''INVALID_STATE_TRANSITION''"
| "reason_value AUTHORIZATION_FAILED = ''AUTHORIZATION_FAILED''"
| "reason_value RATE_LIMIT_EXCEEDED = ''RATE_LIMIT_EXCEEDED''"

record CommandRejectedPayload =
  p_command_id :: string
  p_command_type :: string
  p_reason_code :: RejectionReason
  p_reason_message :: string
  p_rejected_at :: string
  p_correlation_id :: "string option"
  p_metadata :: "(string \<times> json) list option"

text \<open>
  The object literal built in \<^verbatim>\<open>emit\<close>. \<^verbatim>\<open>payload.correlation_id || event_id\<close> falls
  back to the event id for an absent and for an empty correlation id;
  \<^verbatim>\<open>payload.metadata || {}\<close> falls back for absent metadata only, an object being
  truthy.
\<close>

definition rejected_event :: "CommandRejectedPayload \<Rightarrow> string \<Rightarrow> string \<Rightarrow> json" where
  "rejected_event payload event_id occurred_at =
     JObj [(''event_id'', JStr event_id),
           (''event_type'', JStr ''command_rejected.v1''),
           (''occurred_at'', JStr occurred_at),
           (''schema_version'', JStr ''v1''),
           (''correlation_id'',
              JStr (case p_correlation_id payload of
                      None \<Rightarrow> event_id
                    | Some c \<Rightarrow> if c = [] then event_id else c)),
           (''payload'',
              JObj [(''command_id'', JStr (p_command_id payload)),
                    (''command_type'', JStr (p_command_type payload)),
                    (''reason_code'', JStr (reason_value (p_reason_code payload))),
                    (''reason_message'', JStr (p_reason_message payload)),
                    (''rejected_at'', JStr (p_rejected_at payload)),
                    (''metadata'',
                       JObj (case p_metadata payload of None \<Rightarrow> [] | Some m \<Rightarrow> m))])]"

definition emit ::
  "runtime \<Rightarrow> CommandRejectedPayload \<Rightarrow> 'e world \<Rightarrow> (error + string) \<times> 'e world \<times> effect list" where
  "emit rt payload w =
     (case uuidv4 rt w of (event_id, w1) \<Rightarrow>
      case new_Date rt w1 of (occurred_at, w2) \<Rightarrow>
      let event = rejected_event payload event_id occurred_at in
      case validateEvent rt event of
        Inl e \<Rightarrow> (Inl e, w2, [])
      | Inr _ \<Rightarrow> (Inr event_id, w2, [ConsoleLog event]))"

definition emitDuplicateCommand ::
  "runtime \<Rightarrow> string \<Rightarrow> string \<Rightarrow> string option \<Rightarrow> 'e world
     \<Rightarrow> (error + string) \<times> 'e world \<times> effect list" where
  "emitDuplicateCommand rt command_id command_type correlation_id w =
     (case new_Date rt w of (rejected_at, w1) \<Rightarrow>
      emit rt \<lparr>p_command_id = command_id,
               p_command_type = command_type,
               p_reason_code = DUPLICATE_COMMAND,
               p_reason_message = ''Command '' @ command_id @ '' has already been processed'',
               p_rejected_at = rejected_at,
               p_correlation_id = correlation_id,
               p_metadata = None\<rparr> w1)"

definition emitInvalidSchema ::
  "runtime \<Rightarrow> string \<Rightarrow> string \<Rightarrow> string \<Rightarrow> string option \<Rightarrow> 'e world
     \<Rightarrow> (error + string) \<times> 'e world \<times> effect list" where
  "emitInvalidSchema rt command_id command_type validation_error correlation_id w =
     (case new_Date rt w of (rejected_at, w1) \<Rightarrow>
      emit rt \<lparr>p_command_id = command_id,
               p_command_type = command_type,
               p_reason_code = INVALID_SCHEMA,
               p_reason_message = ''Command validation failed: '' @ validation_error,
               p_rejected_at = rejected_at,
               p_correlation_id = correlation_id,
               p_metadata = Some [(''validation_error'', JStr validation_error)]\<rparr> w1)"

definition emitBusinessRuleViolation ::
  "runtime \<Rightarrow> string \<Rightarrow> string \<Rightarrow> string \<Rightarrow> string option \<Rightarrow> 'e world
     \<Rightarrow> (error + string) \<times> 'e world \<times> effect list" where
  "emitBusinessRuleViolation rt command_id command_type rule_violation correlation_id w =
     (case new_Date rt w of (rejected_at, w1) \<Rightarrow>
      emit rt \<lparr>p_command_id = command_id,
               p_command_type = command_type,
               p_reason_code = BUSINESS_RULE_VIOLATION,
               p_reason_message = ''Business rule violation: '' @ rule_violation,
               p_rejected_at = rejected_at,
               p_correlation_id = correlation_id,
               p_metadata = Some [(''rule_violation'', JStr rule_violation)]\<rparr> w1)"

definition emitInsufficientFunds ::
  "runtime \<Rightarrow> string \<Rightarrow> string \<Rightarrow> int \<Rightarrow> int \<Rightarrow> string option \<Rightarrow> 'e world
     \<Rightarrow> (error + string) \<times> 'e world \<times> effect list" where
  "emitInsufficientFunds rt command_id command_type required_amount available_amount
       correlation_id w =
     (case new_Date rt w of (rejected_at, w1) \<Rightarrow>
      emit rt \<lparr>p_command_id = command_id,
               p_command_type = command_type,
               p_reason_code = INSUFFICIENT_FUNDS,
               p_reason_message = ''Insufficient funds: required ''
                  @ number_toString required_amount
                  @ '', available '' @ number_toString available_amount,
               p_rejected_at = rejected_at,
               p_correlation_id = correlation_id,
               p_metadata = Some [(''required_amount'', JNum required_amount),
                                  (''available_amount'', JNum available_amount)]\<rparr> w1)"

definition emitInvalidStateTransition ::
  "runtime \<Rightarrow> string \<Rightarrow> string \<Rightarrow> string \<Rightarrow> string \<Rightarrow> string option \<Rightarrow> 'e world
     \<Rightarrow> (error + string) \<times> 'e world \<times> effect list" where
  "emitInvalidStateTransition rt command_id command_type current_state attempted_transition
       correlation_id w =
     (case new_Date rt w of (rejected_at, w1) \<Rightarrow>
      emit rt \<lparr>p_command_id = command_id,
               p_command_type = command_type,
               p_reason_code = INVALID_STATE_TRANSITION,
               p_reason_message = ''Invalid state transition: '' @ current_state
                  @ '' -> '' @ attempted_transition,
               p_rejected_at = rejected_at,
               p_correlation_id = correlation_id,
               p_metadata = Some [(''current_state'', JStr current_state),
                                  (''attempted_transition'', JStr attempted_transition)]\<rparr> w1)"

section \<open>Command handler\<close>

record Command =
  command_id :: string
  command_type :: string
  correlation_id :: "string option"

record CommandResult =
  success :: bool
  event_id :: "string option"
  rejection_event_id :: "string option"
  reason :: "string option"

text \<open>
  The abstract methods of \<^verbatim>\<open>CommandHandler\<close>, supplied by a subclass. \<^verbatim>\<open>validate\<close>
  returns or throws; \<^verbatim>\<open>execute\<close> resolves to an event id or rejects. Both may
  change the process state. Commands may carry further fields (the record
  extension \<open>'c\<close>).
\<close>

type_synonym ('c, 'e) validate_method =
  "'c Command_scheme \<Rightarrow> 'e world \<Rightarrow> error option \<times> 'e world"

type_synonym ('c, 'e) execute_method =
  "'c Command_scheme \<Rightarrow> 'e world \<Rightarrow> (error + string) \<times> 'e world"

type_synonym 'e outcome = "(error + CommandResult) \<times> 'e world \<times> effect list"

definition handleRejection ::
  "runtime \<Rightarrow> 'c Command_scheme \<Rightarrow> error \<Rightarrow> 'e world \<Rightarrow> 'e outcome" where
  "handleRejection rt command err w =
     (case (if str_includes (message err) ''validation''
            then emitInvalidSchema rt (command_id command) (command_type command)
                   (message err) (correlation_id command) w
            else if str_includes (message err) ''insufficient funds''
            then emitInsufficientFunds rt (command_id command) (command_type command)
                   0 0 (correlation_id command) w
            else if str_includes (message err) ''state transition''
            then emitInvalidStateTransition rt (command_id command) (command_type command)
                   ''unknown'' ''unknown'' (correlation_id command) w
            else emitBusinessRuleViolation rt (command_id command) (command_type command)
                   (message err) (correlation_id command) w) of
        (Inl e, w', fx) \<Rightarrow> (Inl e, w', fx)
      | (Inr rejection_id, w', fx) \<Rightarrow>
          (Inr \<lparr>success = False, event_id = None,
                rejection_event_id = Some rejection_id,
                reason = Some (message err)\<rparr>, w', fx))"

text \<open>
  \<^verbatim>\<open>handle\<close>, run without interruption. \<open>Inl\<close> is an exception that leaves
  \<^verbatim>\<open>handle\<close>: the duplicate rejection is emitted outside the \<^verbatim>\<open>try\<close> block and
  \<^verbatim>\<open>handleRejection\<close> runs inside the \<^verbatim>\<open>catch\<close> block, so what they throw is not
  caught.
\<close>

definition handle ::
  "runtime \<Rightarrow> ('c, 'e) validate_method \<Rightarrow> ('c, 'e) execute_method
     \<Rightarrow> 'c Command_scheme \<Rightarrow> 'e world \<Rightarrow> 'e outcome" where
  "handle rt validate execute command w =
     (if isProcessed (processedCommands w) (command_id command)
      then (case emitDuplicateCommand rt (command_id command) (command_type command)
                   (correlation_id command) w of
              (Inl e, w', fx) \<Rightarrow> (Inl e, w', fx)
            | (Inr rejection_id, w', fx) \<Rightarrow>
                (Inr \<lparr>success = False, event_id = None,
                      rejection_event_id = Some rejection_id,
                      reason = Some ''Duplicate command''\<rparr>, w', fx))
      else (case validate command w of
              (Some err, w1) \<Rightarrow>
                (case handleRejection rt command err w1 of
                   (r, w', fx) \<Rightarrow> (r, w', Validate # fx))
            | (None, w1) \<Rightarrow>
                (case execute command w1 of
                   (Inl err, w2) \<Rightarrow>
                     (case handleRejection rt command err w2 of
                        (r, w', fx) \<Rightarrow> (r, w', Validate # Execute # fx))
                 | (Inr ev_id, w2) \<Rightarrow>
                     (case store_markProcessed rt (command_id command) (command_type command)
                             (Some ev_id) w2 of
                        (Inl err, w3) \<Rightarrow>
                          (case handleRejection rt command err w3 of
                             (r, w', fx) \<Rightarrow>
                               (r, w', Validate # Execute # MarkProcessed # fx))
                      | (Inr _, w3) \<Rightarrow>
                          (Inr \<lparr>success = True, event_id = Some ev_id,
                                rejection_event_id = None, reason = None\<rparr>,
                           w3, [Validate, Execute, MarkProcessed])))))"

subsection \<open>Two calls in flight\<close>

text \<open>
  \<^verbatim>\<open>handle\<close> is an \<^verbatim>\<open>async\<close> function: it runs up to \<^verbatim>\<open>await this.execute(command)\<close>,
  is suspended there, and is resumed in a later turn of the event loop. A second
  call made before that turn runs its own first part in between. \<open>handle_start\<close>
  is the part before the suspension, \<open>handle_resume\<close> the part after it;
  \<open>execute\<close> is taken to settle when it is called, as a method without an
  \<^verbatim>\<open>await\<close> of its own does.
\<close>

datatype suspended =
    Returned "error + CommandResult"
  | AwaitExecute "error + string"

definition handle_start ::
  "runtime \<Rightarrow> ('c, 'e) validate_method \<Rightarrow> ('c, 'e) execute_method
     \<Rightarrow> 'c Command_scheme \<Rightarrow> 'e world \<Rightarrow> suspended \<times> 'e world \<times> effect list" where
  "handle_start rt validate execute command w =
     (if isProcessed (processedCommands w) (command_id command)
      then (case emitDuplicateCommand rt (command_id command) (command_type command)
                   (correlation_id command) w of
              (Inl e, w', fx) \<Rightarrow> (Returned (Inl e), w', fx)
            | (Inr rejection_id, w', fx) \<Rightarrow>
                (Returned (Inr \<lparr>success = False, event_id = None,
                                rejection_event_id = Some rejection_id,
                                reason = Some ''Duplicate command''\<rparr>), w', fx))
      else (case validate command w of
              (Some err, w1) \<Rightarrow>
                (case handleRejection rt command err w1 of
                   (r, w', fx) \<Rightarrow> (Returned r, w', Validate # fx))
            | (None, w1) \<Rightarrow>
                (case execute command w1 of
                   (settled, w2) \<Rightarrow> (AwaitExecute settled, w2, [Validate, Execute]))))"

definition handle_resume ::
  "runtime \<Rightarrow> 'c Command_scheme \<Rightarrow> suspended \<Rightarrow> 'e world \<Rightarrow> 'e outcome" where
  "handle_resume rt command susp w =
     (case susp of
        Returned r \<Rightarrow> (r, w, [])
      | AwaitExecute (Inl err) \<Rightarrow> handleRejection rt command err w
      | AwaitExecute (Inr ev_id) \<Rightarrow>
          (case store_markProcessed rt (command_id command) (command_type command)
                  (Some ev_id) w of
             (Inl err, w3) \<Rightarrow>
               (case handleRejection rt command err w3 of
                  (r, w', fx) \<Rightarrow> (r, w', MarkProcessed # fx))
           | (Inr _, w3) \<Rightarrow>
               (Inr \<lparr>success = True, event_id = Some ev_id,
                     rejection_event_id = None, reason = None\<rparr>,
                w3, [MarkProcessed])))"

text \<open>
  Two calls issued in the same turn, as in
  \<^verbatim>\<open>Promise.all([h.handle(a), h.handle(b)])\<close>: both first parts run, then both
  continuations, in the order of the calls. The result holds the two outcomes
  with the effects of each call, and the final state.
\<close>

definition handle_concurrently ::
  "runtime \<Rightarrow> ('c, 'e) validate_method \<Rightarrow> ('c, 'e) execute_method
     \<Rightarrow> 'c Command_scheme \<Rightarrow> 'c Command_scheme \<Rightarrow> 'e world
     \<Rightarrow> ((error + CommandResult) \<times> effect list) \<times> ((error + CommandResult) \<times> effect list)
        \<times> 'e world" where
  "handle_concurrently rt validate execute a b w =
     (case handle_start rt validate execute a w of (sa, w1, fa) \<Rightarrow>
      case handle_start rt validate execute b w1 of (sb, w2, fb) \<Rightarrow>
      case handle_resume rt a sa w2 of (ra, w3, fa') \<Rightarrow>
      case handle_resume rt b sb w3 of (rb, w4, fb') \<Rightarrow>
      ((ra, fa @ fa'), (rb, fb @ fb'), w4))"

subsection \<open>The handler of the test suite\<close>

text \<open>
  \<^verbatim>\<open>TestCommandHandler\<close> of the command idempotency tests: \<^verbatim>\<open>validate\<close> rejects an
  empty \<^verbatim>\<open>command_id\<close>, \<^verbatim>\<open>execute\<close> fails for \<^verbatim>\<open>cmd-fail\<close> and otherwise returns
  \<^verbatim>\<open>evt-success\<close>.
\<close>

definition test_validate :: "('c, 'e) validate_method" where
  "test_validate command w =
     (if command_id command = [] then (Some (Error ''validation: Missing command_id''), w)
      else (None, w))"

definition test_execute :: "('c, 'e) execute_method" where
  "test_execute command w =
     (if command_id command = ''cmd-fail''
      then (Inl (Error ''Business rule violation: Test failure''), w)
      else (Inr ''evt-success'', w))"

text \<open>
  Concrete surroundings for worked examples: a fresh process, a registry that
  holds a permissive schema under the key \<^verbatim>\<open>validateEvent\<close> computes for the
  rejection event, and a registry that holds schemas under the names the
  \<^verbatim>\<open>PaymentSettled\<close> to \<^verbatim>\<open>payment_settled.v1.json\<close> convention gives.
\<close>

definition fresh_world :: "unit world" where
  "fresh_world = \<lparr>processedCommands = Map.empty, uuid_calls = 0, clock_reads = 0, env = ()\<rparr>"

definition permissive_runtime :: runtime where
  "permissive_runtime =
     \<lparr>getSchema = [''command_rejected.v1.v1.json'' \<mapsto> (\<lambda>event. None)],
      uuid_source = (\<lambda>n. ''uuid-'' @ digits n),
      clock = (\<lambda>n. ''2024-12-17T10:00:0'' @ digits n @ ''Z'')\<rparr>"

definition conventional_runtime :: runtime where
  "conventional_runtime =
     \<lparr>getSchema = [''command_rejected.v1.json'' \<mapsto> (\<lambda>event. None),
                   ''payment_settled.v1.json'' \<mapsto> (\<lambda>event. None)],
      uuid_source = (\<lambda>n. ''uuid-'' @ digits n),
      clock = (\<lambda>n. ''2024-12-17T10:00:0'' @ digits n @ ''Z'')\<rparr>"

text \<open>
  A store that already holds \<^verbatim>\<open>cmd-003\<close>, as after the first \<^verbatim>\<open>markProcessed\<close> of
  the store test, and a process whose store holds \<^verbatim>\<open>cmd-100\<close>.
\<close>

definition store_cmd003 :: store where
  "store_cmd003 =
     [''cmd-003'' \<mapsto> \<lparr>rec_command_id = ''cmd-003'', rec_command_type = ''InitiatePayment'',
                       processed_at = ''2024-12-17T10:00:00Z'', result_event_id = None\<rparr>]"

definition world_cmd100 :: "unit world" where
  "world_cmd100 =
     \<lparr>processedCommands =
        [''cmd-100'' \<mapsto> \<lparr>rec_command_id = ''cmd-100'', rec_command_type = ''Test'',
                          processed_at = ''2024-12-17T10:00:00Z'',
                          result_event_id = Some ''evt-success''\<rparr>],
      uuid_calls = 0, clock_reads = 1, env = ()\<rparr>"

definition cmd100 :: Command where
  "cmd100 = \<lparr>command_id = ''cmd-100'', command_type = ''Test'', correlation_id = None\<rparr>"

definition cmd_fail :: Command where
  "cmd_fail = \<lparr>command_id = ''cmd-fail'', command_type = ''Test'', correlation_id = None\<rparr>"

text \<open>
  Events of the emit-side validation tests, and a registry for them. The schema
  documents are not part of the sources; \<open>payment_settled_schema\<close> stands for a
  compiled schema that requires \<^verbatim>\<open>payload.ledger_posting\<close> with a positive
  \<^verbatim>\<open>amount\<close>, which is what the tests expect of the real one.
\<close>

definition payment_settled_schema :: "json \<Rightarrow> string option" where
  "payment_settled_schema event =
     (case getProp (getProp event ''payload'') ''ledger_posting'' of
        JObj posting \<Rightarrow>
          (case getProp (JObj posting) ''amount'' of
             JNum amount \<Rightarrow>
               if 0 < amount then None
               else Some ''data/payload/ledger_posting/amount must be > 0''
           | _ \<Rightarrow> Some ''data/payload/ledger_posting/amount must be number'')
      | _ \<Rightarrow> Some ''data/payload must have required property ledger_posting'')"

definition payments_runtime :: runtime where
  "payments_runtime =
     \<lparr>getSchema = [''payment_settled.v1.json'' \<mapsto> payment_settled_schema],
      uuid_source = (\<lambda>n. ''uuid-'' @ digits n),
      clock = (\<lambda>n. ''2024-12-17T10:00:0'' @ digits n @ ''Z'')\<rparr>"

definition settled_event :: "(string \<times> json) list \<Rightarrow> json" where
  "settled_event posting =
     JObj [(''event_id'', JStr ''550e8400-e29b-41d4-a716-446655440000''),
           (''event_type'', JStr ''PaymentSettled''),
           (''event_version'', JNum 1),
           (''occurred_at'', JStr ''2024-12-17T10:00:00Z''),
           (''producer'', JStr ''turing-payments-rails''),
           (''correlation_id'', JStr ''550e8400-e29b-41d4-a716-446655440001''),
           (''entity_type'', JStr ''PAYMENT''),
           (''entity_id'', JStr ''pay_123''),
           (''payload'',
              JObj ([(''payment_id'', JStr ''pay_123''),
                     (''attempt_id'', JStr ''att_001''),
                     (''external_ref'', JStr ''ext_ref_abc''),
                     (''settled_at'', JStr ''2024-12-17T10:00:00Z'')] @ posting))]"

definition valid_posting :: "(string \<times> json) list" where
  "valid_posting =
     [(''ledger_posting'',
         JObj [(''debit_account_id'', JStr ''acc_source''),
               (''credit_account_id'', JStr ''acc_dest''),
               (''amount'', JNum 100)])]"

definition unsupported_event :: json where
  "unsupported_event =
     JObj [(''event_id'', JStr ''550e8400-e29b-41d4-a716-446655440000''),
           (''event_type'', JStr ''UnsupportedEventType''),
           (''event_version'', JNum 1),
           (''payload'', JObj [])]"

text \<open>A publisher that records what it is given and always resolves.\<close>

definition recording_publisher :: "json list publisher" where
  "recording_publisher event sent = (Inr (), sent @ [event])"

definition cmd_empty :: Command where
  "cmd_empty = \<lparr>command_id = [], command_type = ''TestCommand'', correlation_id = None\<rparr>"

section \<open>Rejection events, as specified\<close>

text \<open>
  The classification of an error message in the words of the specification, to
  be compared with what \<^verbatim>\<open>handleRejection\<close> does: the reason code is
  \<^verbatim>\<open>INVALID_SCHEMA\<close> for a message containing \<^verbatim>\<open>validation\<close>, otherwise
  \<^verbatim>\<open>INSUFFICIENT_FUNDS\<close> for one containing \<^verbatim>\<open>insufficient funds\<close>, otherwise
  \<^verbatim>\<open>INVALID_STATE_TRANSITION\<close> for one containing \<^verbatim>\<open>state transition\<close>, otherwise
  \<^verbatim>\<open>BUSINESS_RULE_VIOLATION\<close>; the metadata and the reason message are the ones
  of the helper for that code, with amounts \<^verbatim>\<open>0\<close> and states \<^verbatim>\<open>unknown\<close>.
\<close>

definition classified_reason :: "string \<Rightarrow> RejectionReason" where
  "classified_reason m =
     (if str_includes m ''validation'' then INVALID_SCHEMA
      else if str_includes m ''insufficient funds'' then INSUFFICIENT_FUNDS
      else if str_includes m ''state transition'' then INVALID_STATE_TRANSITION
      else BUSINESS_RULE_VIOLATION)"

fun classified_metadata :: "RejectionReason \<Rightarrow> string \<Rightarrow> (string \<times> json) list" where
  "classified_metadata INVALID_SCHEMA m = [(''validation_error'', JStr m)]"
| "classified_metadata INSUFFICIENT_FUNDS m =
     [(''required_amount'', JNum 0), (''available_amount'', JNum 0)]"
| "classified_metadata INVALID_STATE_TRANSITION m =
     [(''current_state'', JStr ''unknown''), (''attempted_transition'', JStr ''unknown'')]"
| "classified_metadata code m = [(''rule_violation'', JStr m)]"

fun classified_message :: "RejectionReason \<Rightarrow> string \<Rightarrow> string" where
  "classified_message INVALID_SCHEMA m = ''Command validation failed: '' @ m"
| "classified_message INSUFFICIENT_FUNDS m = ''Insufficient funds: required 0, available 0''"
| "classified_message INVALID_STATE_TRANSITION m =
     ''Invalid state transition: unknown -> unknown''"
| "classified_message code m = ''Business rule violation: '' @ m"

text \<open>
  The event a rejection of command \<open>c\<close> for error \<open>err\<close> is to submit to the
  gate when it starts in state \<open>w\<close>: stamped with the next UUID, rejected at the
  next clock reading, occurred at the one after. \<open>duplicate_rejection\<close> is the
  event for a duplicate. \<open>after_emission\<close> is the state an emission leaves: two
  clock readings and one UUID drawn, nothing else touched.
\<close>

definition expected_rejection ::
  "runtime \<Rightarrow> 'c Command_scheme \<Rightarrow> error \<Rightarrow> 'e world \<Rightarrow> json" where
  "expected_rejection rt c err w =
     rejected_event
       \<lparr>p_command_id = command_id c,
        p_command_type = command_type c,
        p_reason_code = classified_reason (message err),
        p_reason_message = classified_message (classified_reason (message err)) (message err),
        p_rejected_at = clock rt (clock_reads w),
        p_correlation_id = correlation_id c,
        p_metadata = Some (classified_metadata (classified_reason (message err)) (message err))\<rparr>
       (uuid_source rt (uuid_calls w))
       (clock rt (Suc (clock_reads w)))"

definition duplicate_rejection :: "runtime \<Rightarrow> 'c Command_scheme \<Rightarrow> 'e world \<Rightarrow> json" where
  "duplicate_rejection rt c w =
     rejected_event
       \<lparr>p_command_id = command_id c,
        p_command_type = command_type c,
        p_reason_code = DUPLICATE_COMMAND,
        p_reason_message = ''Command '' @ command_id c @ '' has already been processed'',
        p_rejected_at = clock rt (clock_reads w),
        p_correlation_id = correlation_id c,
        p_metadata = None\<rparr>
       (uuid_source rt (uuid_calls w))
       (clock rt (Suc (clock_reads w)))"

definition after_emission :: "'e world \<Rightarrow> 'e world" where
  "after_emission w =
     w\<lparr>clock_reads := Suc (Suc (clock_reads w)), uuid_calls := Suc (uuid_calls w)\<rparr>"

text \<open>
  What the handler has invoked when it reaches \<^verbatim>\<open>handleRejection\<close>: \<^verbatim>\<open>validate\<close>
  alone when \<^verbatim>\<open>validate\<close> threw, \<^verbatim>\<open>validate\<close> and \<^verbatim>\<open>execute\<close> when \<^verbatim>\<open>execute\<close> did.
\<close>

definition invoked_before_rejection :: "error option \<Rightarrow> effect list" where
  "invoked_before_rejection thrown_by_validate =
     (case thrown_by_validate of Some err \<Rightarrow> [Validate] | None \<Rightarrow> [Validate, Execute])"

text \<open>
  Further handlers for worked examples: a \<^verbatim>\<open>validate\<close> that accepts everything
  and an \<^verbatim>\<open>execute\<close> that rejects with a given message.
\<close>

definition passing_validate :: "('c, 'e) validate_method" where
  "passing_validate command w = (None, w)"

definition raising_execute :: "string \<Rightarrow> ('c, 'e) execute_method" where
  "raising_execute msg command w = (Inl (Error msg), w)"

section \<open>Schema file names\<close>

text \<open>
  What the name mapping is specified for. A snake_case name is a sequence of
  words joined by single underscores, each word a non-empty run of lower-case
  letters and digits. A word starts with a letter when its first character is a
  lower-case letter; \<open>later_words_start_with_letter\<close> asks this of every word
  but the first. An event schema file is a snake_case name with that property,
  followed by \<^verbatim>\<open>.v1.json\<close>.
\<close>

definition is_snake_word :: "string \<Rightarrow> bool" where
  "is_snake_word word = (word \<noteq> [] \<and> list_all (\<lambda>d. is_lower d \<or> is_digit d) word)"

definition snake_case :: "string \<Rightarrow> bool" where
  "snake_case name = list_all is_snake_word (splitStr CHR ''_'' name)"

definition starts_with_letter :: "string \<Rightarrow> bool" where
  "starts_with_letter word = (case word of [] \<Rightarrow> False | c # cs \<Rightarrow> is_lower c)"

definition later_words_start_with_letter :: "string \<Rightarrow> bool" where
  "later_words_start_with_letter name =
     list_all starts_with_letter (tl (splitStr CHR ''_'' name))"

definition is_event_schema_file :: "string \<Rightarrow> bool" where
  "is_event_schema_file f =
     (suffix ''.v1.json'' f
      \<and> snake_case (take (length f - length ''.v1.json'') f)
      \<and> later_words_start_with_letter (take (length f - length ''.v1.json'') f))"

text \<open>A directory listing in the layout the validation tests rely on.\<close>

definition schema_dir_listing :: "string list" where
  "schema_dir_listing =
     [''README.md'', ''envelope.v1.json'', ''payment_initiated.v1.json'',
      ''payment_settled.v1.json'']"

section \<open>Properties of the store\<close>

lemma includes_prefix: "prefix pat s \<Longrightarrow> str_includes s pat"
  by (cases s) auto

lemma includes_append_left: "str_includes s pat \<Longrightarrow> str_includes (t @ s) pat"
  by (induction t) auto

text \<open>
  C8. On a key that is already present, \<^verbatim>\<open>markProcessed\<close> fails with the
  already-processed error whatever command type and result event id are
  passed, and the store it leaves is the store it found: the record under the
  key is the old one and \<^verbatim>\<open>count()\<close> is the same.
\<close>

theorem markProcessed_present_fails:
  assumes "isProcessed s cid"
  shows "fst (markProcessed s cid ctype res now) =
           Inl (Error (''Command '' @ cid @ '' already processed''))
       \<and> str_includes (message (Error (''Command '' @ cid @ '' already processed'')))
            ''already processed''
       \<and> snd (markProcessed s cid ctype res now) = s
       \<and> getRecord (snd (markProcessed s cid ctype res now)) cid
           = getRecord s cid
       \<and> count (snd (markProcessed s cid ctype res now)) = count s"
proof -
  have "str_includes ('' already processed'') ''already processed''"
    by simp
  then have "str_includes (''Command '' @ cid @ '' already processed'') ''already processed''"
    by (intro includes_append_left)
  with assms show ?thesis
    by (simp add: markProcessed_def)
qed

theorem markProcessed_present_fails_witness:
  "isProcessed store_cmd003 ''cmd-003''
   \<and> fst (markProcessed store_cmd003 ''cmd-003'' ''InitiatePayment'' None ''2024-12-17T10:00:01Z'')
       = Inl (Error ''Command cmd-003 already processed'')
   \<and> snd (markProcessed store_cmd003 ''cmd-003'' ''InitiatePayment'' None ''2024-12-17T10:00:01Z'')
       = store_cmd003
   \<and> count (snd (markProcessed store_cmd003 ''cmd-003'' ''InitiatePayment'' None
                    ''2024-12-17T10:00:01Z'')) = count store_cmd003"
proof -
  have present: "isProcessed store_cmd003 ''cmd-003''"
    by (simp add: isProcessed_def store_cmd003_def)
  from markProcessed_present_fails [OF present, of "''InitiatePayment''" None
      "''2024-12-17T10:00:01Z''"] present
  show ?thesis by simp
qed

section \<open>Properties of the emission gate\<close>

lemma includes_after: "str_includes (pat @ rest) pat"
  by (simp add: includes_prefix)

lemma result_of_simp [simp]: "result_of (r, w, fx) = r"
  by (simp add: result_of_def)

lemma world_of_simp [simp]: "world_of (r, w, fx) = w"
  by (simp add: world_of_def)

lemma effects_of_simp [simp]: "effects_of (r, w, fx) = fx"
  by (simp add: effects_of_def)

lemma snake_PaymentSettled: "toSnakeCase ''PaymentSettled'' = ''payment_settled''"
  by code_simp

lemma snake_Unsupported: "toSnakeCase ''UnsupportedEventType'' = ''unsupported_event_type''"
  by code_simp

text \<open>
  C6. \<^verbatim>\<open>emitEvent\<close> validates before it publishes. Whatever \<^verbatim>\<open>validateEvent\<close>
  throws is thrown by \<^verbatim>\<open>emitEvent\<close>, with the transport state untouched and
  nothing handed to the publisher, whichever publisher is configured. For an
  event object with a non-empty string \<^verbatim>\<open>event_type\<close>: a payload that fails the
  registered schema gives an error whose message contains \<^verbatim>\<open>Schema violation\<close>,
  and an unregistered type gives one containing \<^verbatim>\<open>No schema registered\<close>. When
  validation passes and no publisher is set, the call fails with the
  publisher-not-configured error; with a publisher set, exactly the validated
  event is handed to it.
\<close>

theorem emitEvent_validates_before_publish:
  "(validateEvent rt event = Inl e \<longrightarrow> emitEvent rt publisher event p = (Inl e, p, []))
 \<and> (truthy event \<and> typeof_object event \<and> getProp event ''event_type'' = JStr t \<and> t \<noteq> []
      \<and> getSchema rt (toSnakeCase t @ ''.v1.json'') = Some validate \<and> validate event = Some errors
    \<longrightarrow> emitEvent rt publisher event p
          = (Inl (Error (''Schema violation for '' @ t @ '': '' @ errors)), p, [])
      \<and> str_includes (''Schema violation for '' @ t @ '': '' @ errors) ''Schema violation'')
 \<and> (truthy event \<and> typeof_object event \<and> getProp event ''event_type'' = JStr t \<and> t \<noteq> []
      \<and> getSchema rt (toSnakeCase t @ ''.v1.json'') = None
    \<longrightarrow> emitEvent rt publisher event p
          = (Inl (Error (''No schema registered for '' @ t @ '' (expected ''
                          @ toSnakeCase t @ ''.v1.json'' @ '')'')), p, [])
      \<and> str_includes (''No schema registered for '' @ t @ '' (expected ''
                          @ toSnakeCase t @ ''.v1.json'' @ '')'') ''No schema registered'')
 \<and> (validateEvent rt event = Inr () \<longrightarrow>
       emitEvent rt None event p
         = (Inl (Error ''Event publisher not configured. Call setPublisher() first.''), p, [])
     \<and> emitEvent rt (Some impl) event p = (fst (impl event p), snd (impl event p), [event]))"
proof -
  have viol: "str_includes (''Schema violation for '' @ t @ '': '' @ errors) ''Schema violation''"
    using includes_after [of "''Schema violation''" "'' for '' @ t @ '': '' @ errors"] by simp
  have noschema: "str_includes (''No schema registered for '' @ t @ '' (expected ''
                          @ toSnakeCase t @ ''.v1.json'' @ '')'') ''No schema registered''"
    using includes_after [of "''No schema registered''"
       "'' for '' @ t @ '' (expected '' @ toSnakeCase t @ ''.v1.json'' @ '')''"] by simp
  show ?thesis
    using viol noschema
    by (auto simp: emitEvent_def validateEvent_def Let_def split: prod.splits)
qed

theorem emitEvent_validates_before_publish_witness:
  "emitEvent payments_runtime (Some recording_publisher) (settled_event []) []
     = (Inl (Error (''Schema violation for PaymentSettled: ''
                    @ ''data/payload must have required property ledger_posting'')), [], [])
   \<and> emitEvent payments_runtime (Some recording_publisher) unsupported_event []
     = (Inl (Error (''No schema registered for UnsupportedEventType''
                    @ '' (expected unsupported_event_type.v1.json)'')), [], [])
   \<and> validateEvent payments_runtime (settled_event valid_posting) = Inr ()
   \<and> emitEvent payments_runtime None (settled_event valid_posting) ([] :: json list)
     = (Inl (Error ''Event publisher not configured. Call setPublisher() first.''), [], [])
   \<and> emitEvent payments_runtime (Some recording_publisher) (settled_event valid_posting) []
     = (Inr (), [settled_event valid_posting], [settled_event valid_posting])"
proof -
  have ok: "validateEvent payments_runtime (settled_event valid_posting) = Inr ()"
    by (simp add: validateEvent_def payments_runtime_def settled_event_def valid_posting_def
        payment_settled_schema_def snake_PaymentSettled)
  have a: "truthy (settled_event []) \<and> typeof_object (settled_event [])
      \<and> getProp (settled_event []) ''event_type'' = JStr ''PaymentSettled'' \<and> ''PaymentSettled'' \<noteq> []
      \<and> getSchema payments_runtime (toSnakeCase ''PaymentSettled'' @ ''.v1.json'')
          = Some payment_settled_schema
      \<and> payment_settled_schema (settled_event [])
          = Some ''data/payload must have required property ledger_posting''"
    by (simp add: payments_runtime_def settled_event_def payment_settled_schema_def
        snake_PaymentSettled)
  have b: "truthy unsupported_event \<and> typeof_object unsupported_event
      \<and> getProp unsupported_event ''event_type'' = JStr ''UnsupportedEventType''
      \<and> ''UnsupportedEventType'' \<noteq> []
      \<and> getSchema payments_runtime (toSnakeCase ''UnsupportedEventType'' @ ''.v1.json'') = None"
    by (simp add: payments_runtime_def unsupported_event_def snake_Unsupported)
  from emitEvent_validates_before_publish
         [of payments_runtime "settled_event []" _ "Some recording_publisher" "[]"
             "''PaymentSettled''" payment_settled_schema
             "''data/payload must have required property ledger_posting''"] a
  have 1: "emitEvent payments_runtime (Some recording_publisher) (settled_event []) []
     = (Inl (Error (''Schema violation for PaymentSettled: ''
                    @ ''data/payload must have required property ledger_posting'')), [], [])"
    by simp
  from emitEvent_validates_before_publish
         [of payments_runtime unsupported_event _ "Some recording_publisher" "[]"
             "''UnsupportedEventType''"] b
  have 2: "emitEvent payments_runtime (Some recording_publisher) unsupported_event []
     = (Inl (Error (''No schema registered for UnsupportedEventType''
                    @ '' (expected unsupported_event_type.v1.json)'')), [], [])"
    by (simp add: snake_Unsupported)
  from emitEvent_validates_before_publish
         [of payments_runtime "settled_event valid_posting" _ _ "[]" _ _ _ recording_publisher] ok
  have 3: "emitEvent payments_runtime None (settled_event valid_posting) ([] :: json list)
     = (Inl (Error ''Event publisher not configured. Call setPublisher() first.''), [], [])
   \<and> emitEvent payments_runtime (Some recording_publisher) (settled_event valid_posting) []
     = (Inr (), [settled_event valid_posting], [settled_event valid_posting])"
    by (simp add: recording_publisher_def)
  from 1 2 3 ok show ?thesis by simp
qed

section \<open>Properties of the rejection emitter\<close>

lemma emit_unfold:
  "emit rt payload w =
     (case validateEvent rt (rejected_event payload (uuid_source rt (uuid_calls w))
                               (clock rt (clock_reads w))) of
        Inl e \<Rightarrow> (Inl e, w\<lparr>uuid_calls := Suc (uuid_calls w), clock_reads := Suc (clock_reads w)\<rparr>, [])
      | Inr u \<Rightarrow> (Inr (uuid_source rt (uuid_calls w)),
                  w\<lparr>uuid_calls := Suc (uuid_calls w), clock_reads := Suc (clock_reads w)\<rparr>,
                  [ConsoleLog (rejected_event payload (uuid_source rt (uuid_calls w))
                               (clock rt (clock_reads w)))]))"
  by (simp add: emit_def uuidv4_def new_Date_def Let_def split: sum.splits)

lemma emit_success:
  assumes "result_of (emit rt payload w) = Inr rid"
  shows "rid = uuid_source rt (uuid_calls w)
       \<and> uuid_calls (world_of (emit rt payload w)) = Suc (uuid_calls w)
       \<and> effects_of (emit rt payload w)
           = [ConsoleLog (rejected_event payload rid (clock rt (clock_reads w)))]
       \<and> validateEvent rt (rejected_event payload rid (clock rt (clock_reads w))) = Inr ()"
  using assms by (auto simp: emit_unfold split: sum.splits)

lemma rejected_event_fields:
  "getProp (rejected_event payload eid t) ''event_id'' = JStr eid"
  "getProp (rejected_event payload eid t) ''event_type'' = JStr ''command_rejected.v1''"
  "getProp (getProp (rejected_event payload eid t) ''payload'') ''rejected_at''
     = JStr (p_rejected_at payload)"
  "getProp (getProp (rejected_event payload eid t) ''payload'') ''command_id''
     = JStr (p_command_id payload)"
  "getProp (getProp (rejected_event payload eid t) ''payload'') ''reason_code''
     = JStr (reason_value (p_reason_code payload))"
  "getProp (getProp (rejected_event payload eid t) ''payload'') ''reason_message''
     = JStr (p_reason_message payload)"
  "getProp (getProp (rejected_event payload eid t) ''payload'') ''metadata''
     = JObj (case p_metadata payload of None \<Rightarrow> [] | Some m \<Rightarrow> m)"
  "p_correlation_id payload = None \<Longrightarrow>
     getProp (rejected_event payload eid t) ''correlation_id'' = JStr eid"
  by (simp_all add: rejected_event_def)

lemma helper_as_emit:
  assumes "helper \<in> {emitDuplicateCommand rt cid ctype corr,
                      emitInvalidSchema rt cid ctype verr corr,
                      emitBusinessRuleViolation rt cid ctype rule corr,
                      emitInsufficientFunds rt cid ctype req avail corr,
                      emitInvalidStateTransition rt cid ctype cur att corr}"
  shows "\<exists>payload. helper w = emit rt payload (w\<lparr>clock_reads := Suc (clock_reads w)\<rparr>)
           \<and> p_rejected_at payload = clock rt (clock_reads w)
           \<and> p_correlation_id payload = corr
           \<and> p_command_id payload = cid
           \<and> p_command_type payload = ctype"
proof -
  from assms consider
      "helper = emitDuplicateCommand rt cid ctype corr"
    | "helper = emitInvalidSchema rt cid ctype verr corr"
    | "helper = emitBusinessRuleViolation rt cid ctype rule corr"
    | "helper = emitInsufficientFunds rt cid ctype req avail corr"
    | "helper = emitInvalidStateTransition rt cid ctype cur att corr"
    by blast
  then show ?thesis
    by cases
      (auto simp: emitDuplicateCommand_def emitInvalidSchema_def emitBusinessRuleViolation_def
        emitInsufficientFunds_def emitInvalidStateTransition_def new_Date_def
        intro!: exI)
qed

section \<open>Properties of the command handler\<close>

lemma emit_world:
  "processedCommands (world_of (emit rt payload w)) = processedCommands w"
  "env (world_of (emit rt payload w)) = env w"
  by (simp_all add: emit_unfold split: sum.splits)

lemma handleRejection_as_emit:
  "\<exists>payload.
     handleRejection rt c err w =
       (case emit rt payload (w\<lparr>clock_reads := Suc (clock_reads w)\<rparr>) of
          (Inl e, w', fx) \<Rightarrow> (Inl e, w', fx)
        | (Inr rid, w', fx) \<Rightarrow>
            (Inr \<lparr>success = False, event_id = None, rejection_event_id = Some rid,
                  reason = Some (message err)\<rparr>, w', fx))
   \<and> p_command_id payload = command_id c
   \<and> p_command_type payload = command_type c
   \<and> p_correlation_id payload = correlation_id c
   \<and> p_rejected_at payload = clock rt (clock_reads w)
   \<and> p_reason_code payload =
        (if str_includes (message err) ''validation'' then INVALID_SCHEMA
         else if str_includes (message err) ''insufficient funds'' then INSUFFICIENT_FUNDS
         else if str_includes (message err) ''state transition'' then INVALID_STATE_TRANSITION
         else BUSINESS_RULE_VIOLATION)
   \<and> p_metadata payload =
        Some (if str_includes (message err) ''validation''
              then [(''validation_error'', JStr (message err))]
              else if str_includes (message err) ''insufficient funds''
              then [(''required_amount'', JNum 0), (''available_amount'', JNum 0)]
              else if str_includes (message err) ''state transition''
              then [(''current_state'', JStr ''unknown''),
                    (''attempted_transition'', JStr ''unknown'')]
              else [(''rule_violation'', JStr (message err))])"
  by (cases "str_includes (message err) ''validation''";
      cases "str_includes (message err) ''insufficient funds''";
      cases "str_includes (message err) ''state transition''";
      simp add: handleRejection_def emitInvalidSchema_def emitBusinessRuleViolation_def
        emitInsufficientFunds_def emitInvalidStateTransition_def new_Date_def)
     (rule exI, rule conjI, rule refl, simp)+

lemma result_of_case [simp]:
  "result_of (case x of (r, w', fx) \<Rightarrow> (r, w', f fx)) = result_of x"
  by (cases x) simp

lemma world_of_case [simp]:
  "world_of (case x of (r, w', fx) \<Rightarrow> (r, w', f fx)) = world_of x"
  by (cases x) simp

lemma effects_of_case [simp]:
  "effects_of (case x of (r, w', fx) \<Rightarrow> (r, w', f fx)) = f (effects_of x)"
  by (cases x) simp

text \<open>
  What \<^verbatim>\<open>handleRejection\<close> can do: log one accepted event and return a failure
  result, or rethrow the gate's error with nothing logged. The store and the
  domain state are left alone.
\<close>

lemma handleRejection_parts:
  "processedCommands (world_of (handleRejection rt c err w)) = processedCommands w
 \<and> env (world_of (handleRejection rt c err w)) = env w
 \<and> ((\<exists>rid ev.
        result_of (handleRejection rt c err w) =
          Inr \<lparr>success = False, event_id = None, rejection_event_id = Some rid,
                reason = Some (message err)\<rparr>
      \<and> effects_of (handleRejection rt c err w) = [ConsoleLog ev]
      \<and> validateEvent rt ev = Inr ()
      \<and> getProp ev ''event_id'' = JStr rid
      \<and> getProp ev ''event_type'' = JStr ''command_rejected.v1''
      \<and> getProp (getProp ev ''payload'') ''command_id'' = JStr (command_id c)
      \<and> getProp (getProp ev ''payload'') ''reason_code'' =
           JStr (reason_value
             (if str_includes (message err) ''validation'' then INVALID_SCHEMA
              else if str_includes (message err) ''insufficient funds'' then INSUFFICIENT_FUNDS
              else if str_includes (message err) ''state transition''
              then INVALID_STATE_TRANSITION
              else BUSINESS_RULE_VIOLATION))
      \<and> getProp (getProp ev ''payload'') ''metadata'' =
           JObj (if str_includes (message err) ''validation''
                 then [(''validation_error'', JStr (message err))]
                 else if str_includes (message err) ''insufficient funds''
                 then [(''required_amount'', JNum 0), (''available_amount'', JNum 0)]
                 else if str_includes (message err) ''state transition''
                 then [(''current_state'', JStr ''unknown''),
                       (''attempted_transition'', JStr ''unknown'')]
                 else [(''rule_violation'', JStr (message err))]))
    \<or> (\<exists>e ev.
        result_of (handleRejection rt c err w) = Inl e
      \<and> effects_of (handleRejection rt c err w) = []
      \<and> validateEvent rt ev = Inl e
      \<and> getProp ev ''event_type'' = JStr ''command_rejected.v1''
      \<and> getProp (getProp ev ''payload'') ''command_id'' = JStr (command_id c)))"
proof -
  let ?w1 = "w\<lparr>clock_reads := Suc (clock_reads w)\<rparr>"
  from handleRejection_as_emit [of rt c err w] obtain payload where
    run: "handleRejection rt c err w =
       (case emit rt payload ?w1 of
          (Inl e, w', fx) \<Rightarrow> (Inl e, w', fx)
        | (Inr rid, w', fx) \<Rightarrow>
            (Inr \<lparr>success = False, event_id = None, rejection_event_id = Some rid,
                  reason = Some (message err)\<rparr>, w', fx))"
    and pl: "p_command_id payload = command_id c"
      "p_reason_code payload =
        (if str_includes (message err) ''validation'' then INVALID_SCHEMA
         else if str_includes (message err) ''insufficient funds'' then INSUFFICIENT_FUNDS
         else if str_includes (message err) ''state transition'' then INVALID_STATE_TRANSITION
         else BUSINESS_RULE_VIOLATION)"
      "p_metadata payload =
        Some (if str_includes (message err) ''validation''
              then [(''validation_error'', JStr (message err))]
              else if str_includes (message err) ''insufficient funds''
              then [(''required_amount'', JNum 0), (''available_amount'', JNum 0)]
              else if str_includes (message err) ''state transition''
              then [(''current_state'', JStr ''unknown''),
                    (''attempted_transition'', JStr ''unknown'')]
              else [(''rule_violation'', JStr (message err))])"
    by blast
  let ?ev = "rejected_event payload (uuid_source rt (uuid_calls w)) (clock rt (Suc (clock_reads w)))"
  let ?w' = "w\<lparr>clock_reads := Suc (Suc (clock_reads w)), uuid_calls := Suc (uuid_calls w)\<rparr>"
  show ?thesis
  proof (cases "validateEvent rt ?ev")
    case (Inl e)
    then have "handleRejection rt c err w = (Inl e, ?w', [])"
      by (simp add: run emit_unfold)
    with Inl pl show ?thesis
      by (intro conjI disjI2 exI [of _ e] exI [of _ ?ev])
         (simp_all add: rejected_event_fields)
  next
    case (Inr u)
    then have "handleRejection rt c err w
        = (Inr \<lparr>success = False, event_id = None,
                rejection_event_id = Some (uuid_source rt (uuid_calls w)),
                reason = Some (message err)\<rparr>, ?w', [ConsoleLog ?ev])"
      by (simp add: run emit_unfold)
    with Inr pl show ?thesis
      by (intro conjI disjI1 exI [of _ "uuid_source rt (uuid_calls w)"] exI [of _ ?ev])
         (simp_all add: rejected_event_fields)
  qed
qed

lemma emitDuplicateCommand_parts:
  "processedCommands (world_of (emitDuplicateCommand rt cid ctype corr w)) = processedCommands w
 \<and> env (world_of (emitDuplicateCommand rt cid ctype corr w)) = env w
 \<and> ((\<exists>ev.
        result_of (emitDuplicateCommand rt cid ctype corr w) = Inr (uuid_source rt (uuid_calls w))
      \<and> effects_of (emitDuplicateCommand rt cid ctype corr w) = [ConsoleLog ev]
      \<and> validateEvent rt ev = Inr ()
      \<and> getProp ev ''event_id'' = JStr (uuid_source rt (uuid_calls w))
      \<and> getProp ev ''event_type'' = JStr ''command_rejected.v1''
      \<and> getProp (getProp ev ''payload'') ''command_id'' = JStr cid
      \<and> getProp (getProp ev ''payload'') ''reason_code'' = JStr ''DUPLICATE_COMMAND'')
    \<or> (\<exists>e ev.
        result_of (emitDuplicateCommand rt cid ctype corr w) = Inl e
      \<and> effects_of (emitDuplicateCommand rt cid ctype corr w) = []
      \<and> validateEvent rt ev = Inl e
      \<and> getProp ev ''event_type'' = JStr ''command_rejected.v1''
      \<and> getProp (getProp ev ''payload'') ''command_id'' = JStr cid
      \<and> getProp (getProp ev ''payload'') ''reason_code'' = JStr ''DUPLICATE_COMMAND''))"
proof -
  let ?payload = "\<lparr>p_command_id = cid, p_command_type = ctype,
      p_reason_code = DUPLICATE_COMMAND,
      p_reason_message = ''Command '' @ cid @ '' has already been processed'',
      p_rejected_at = clock rt (clock_reads w), p_correlation_id = corr, p_metadata = None\<rparr>"
  let ?ev = "rejected_event ?payload (uuid_source rt (uuid_calls w))
               (clock rt (Suc (clock_reads w)))"
  let ?w' = "w\<lparr>clock_reads := Suc (Suc (clock_reads w)), uuid_calls := Suc (uuid_calls w)\<rparr>"
  show ?thesis
  proof (cases "validateEvent rt ?ev")
    case (Inl e)
    then have "emitDuplicateCommand rt cid ctype corr w = (Inl e, ?w', [])"
      by (simp add: emitDuplicateCommand_def new_Date_def emit_unfold)
    with Inl show ?thesis
      by (intro conjI disjI2 exI [of _ e] exI [of _ ?ev])
         (simp_all add: rejected_event_fields)
  next
    case (Inr u)
    then have "emitDuplicateCommand rt cid ctype corr w
        = (Inr (uuid_source rt (uuid_calls w)), ?w', [ConsoleLog ?ev])"
      by (simp add: emitDuplicateCommand_def new_Date_def emit_unfold)
    with Inr show ?thesis
      by (intro conjI disjI1 exI [of _ ?ev])
         (simp_all add: rejected_event_fields)
  qed
qed

lemma handle_processed:
  "isProcessed (processedCommands w) (command_id c) \<Longrightarrow>
   handle rt validate execute c w =
     (case emitDuplicateCommand rt (command_id c) (command_type c) (correlation_id c) w of
        (Inl e, w', fx) \<Rightarrow> (Inl e, w', fx)
      | (Inr rejection_id, w', fx) \<Rightarrow>
          (Inr \<lparr>success = False, event_id = None, rejection_event_id = Some rejection_id,
                reason = Some ''Duplicate command''\<rparr>, w', fx))"
  by (simp add: handle_def)

lemma handle_validate_throws:
  "\<not> isProcessed (processedCommands w) (command_id c) \<Longrightarrow> validate c w = (Some err, w1) \<Longrightarrow>
   handle rt validate execute c w =
     (case handleRejection rt c err w1 of (r, w', fx) \<Rightarrow> (r, w', Validate # fx))"
  by (simp add: handle_def)

lemma handle_execute_rejects:
  "\<not> isProcessed (processedCommands w) (command_id c) \<Longrightarrow> validate c w = (None, w1) \<Longrightarrow>
   execute c w1 = (Inl err, w2) \<Longrightarrow>
   handle rt validate execute c w =
     (case handleRejection rt c err w2 of (r, w', fx) \<Rightarrow> (r, w', Validate # Execute # fx))"
  by (simp add: handle_def)

lemma handle_execute_resolves:
  "\<not> isProcessed (processedCommands w) (command_id c) \<Longrightarrow> validate c w = (None, w1) \<Longrightarrow>
   execute c w1 = (Inr ev_id, w2) \<Longrightarrow>
   handle rt validate execute c w =
     (case store_markProcessed rt (command_id c) (command_type c) (Some ev_id) w2 of
        (Inl err, w3) \<Rightarrow>
          (case handleRejection rt c err w3 of
             (r, w', fx) \<Rightarrow> (r, w', Validate # Execute # MarkProcessed # fx))
      | (Inr u, w3) \<Rightarrow>
          (Inr \<lparr>success = True, event_id = Some ev_id, rejection_event_id = None,
                reason = None\<rparr>, w3, [Validate, Execute, MarkProcessed]))"
  by (simp add: handle_def)

lemma store_markProcessed_cases:
  "(isProcessed (processedCommands w) cid
      \<and> store_markProcessed rt cid ctype res w
          = (Inl (Error (''Command '' @ cid @ '' already processed'')), w))
 \<or> (\<not> isProcessed (processedCommands w) cid
      \<and> (\<exists>w'. store_markProcessed rt cid ctype res w = (Inr (), w')
            \<and> isProcessed (processedCommands w') cid \<and> env w' = env w))"
  by (simp add: store_markProcessed_def markProcessed_def isProcessed_def)

text \<open>Every run of \<^verbatim>\<open>handle\<close> takes one of five paths.\<close>

lemma handle_paths:
  "(isProcessed (processedCommands w) (command_id c)
      \<and> handle rt validate execute c w =
          (case emitDuplicateCommand rt (command_id c) (command_type c) (correlation_id c) w of
             (Inl e, w', fx) \<Rightarrow> (Inl e, w', fx)
           | (Inr rejection_id, w', fx) \<Rightarrow>
               (Inr \<lparr>success = False, event_id = None, rejection_event_id = Some rejection_id,
                     reason = Some ''Duplicate command''\<rparr>, w', fx)))
 \<or> (\<exists>err w1. \<not> isProcessed (processedCommands w) (command_id c)
      \<and> validate c w = (Some err, w1)
      \<and> handle rt validate execute c w =
          (case handleRejection rt c err w1 of (r, w', fx) \<Rightarrow> (r, w', Validate # fx)))
 \<or> (\<exists>err w1 w2. \<not> isProcessed (processedCommands w) (command_id c)
      \<and> validate c w = (None, w1) \<and> execute c w1 = (Inl err, w2)
      \<and> handle rt validate execute c w =
          (case handleRejection rt c err w2 of
             (r, w', fx) \<Rightarrow> (r, w', Validate # Execute # fx)))
 \<or> (\<exists>ev_id w1 w2. \<not> isProcessed (processedCommands w) (command_id c)
      \<and> validate c w = (None, w1) \<and> execute c w1 = (Inr ev_id, w2)
      \<and> isProcessed (processedCommands w2) (command_id c)
      \<and> handle rt validate execute c w =
          (case handleRejection rt c
                  (Error (''Command '' @ command_id c @ '' already processed'')) w2 of
             (r, w', fx) \<Rightarrow> (r, w', Validate # Execute # MarkProcessed # fx)))
 \<or> (\<exists>ev_id w1 w2 w3. \<not> isProcessed (processedCommands w) (command_id c)
      \<and> validate c w = (None, w1) \<and> execute c w1 = (Inr ev_id, w2)
      \<and> \<not> isProcessed (processedCommands w2) (command_id c)
      \<and> isProcessed (processedCommands w3) (command_id c)
      \<and> handle rt validate execute c w =
          (Inr \<lparr>success = True, event_id = Some ev_id, rejection_event_id = None,
                reason = None\<rparr>, w3, [Validate, Execute, MarkProcessed]))"
proof (cases "isProcessed (processedCommands w) (command_id c)")
  case True
  then show ?thesis by (simp add: handle_processed)
next
  case np: False
  obtain verr w1 where v: "validate c w = (verr, w1)" by (cases "validate c w")
  show ?thesis
  proof (cases verr)
    case (Some err)
    with np v show ?thesis by (simp add: handle_validate_throws)
  next
    case None
    obtain xr w2 where x: "execute c w1 = (xr, w2)" by (cases "execute c w1")
    show ?thesis
    proof (cases xr)
      case (Inl err)
      with np v None x show ?thesis by (simp add: handle_execute_rejects)
    next
      case (Inr ev_id)
      from np v None x Inr
      have h: "handle rt validate execute c w =
         (case store_markProcessed rt (command_id c) (command_type c) (Some ev_id) w2 of
            (Inl err, w3) \<Rightarrow>
              (case handleRejection rt c err w3 of
                 (r, w', fx) \<Rightarrow> (r, w', Validate # Execute # MarkProcessed # fx))
          | (Inr u, w3) \<Rightarrow>
              (Inr \<lparr>success = True, event_id = Some ev_id, rejection_event_id = None,
                    reason = None\<rparr>, w3, [Validate, Execute, MarkProcessed]))"
        by (simp add: handle_execute_resolves)
      from store_markProcessed_cases [of w2 "command_id c" rt "command_type c" "Some ev_id"]
      show ?thesis
      proof
        assume "isProcessed (processedCommands w2) (command_id c)
          \<and> store_markProcessed rt (command_id c) (command_type c) (Some ev_id) w2
              = (Inl (Error (''Command '' @ command_id c @ '' already processed'')), w2)"
        with np v None x Inr h show ?thesis by simp
      next
        assume "\<not> isProcessed (processedCommands w2) (command_id c)
          \<and> (\<exists>w'. store_markProcessed rt (command_id c) (command_type c) (Some ev_id) w2
                     = (Inr (), w')
                \<and> isProcessed (processedCommands w') (command_id c) \<and> env w' = env w2)"
        then obtain w3 where
          "\<not> isProcessed (processedCommands w2) (command_id c)"
          "store_markProcessed rt (command_id c) (command_type c) (Some ev_id) w2 = (Inr (), w3)"
          "isProcessed (processedCommands w3) (command_id c)"
          by blast
        with np v None x Inr h show ?thesis by auto
      qed
    qed
  qed
qed

lemma duplicate_result_parts:
  fixes x :: "(error + string) \<times> 'w \<times> effect list"
  defines "y \<equiv> (case x of
        (Inl e, w', fx) \<Rightarrow> (Inl e, w', fx)
      | (Inr rejection_id, w', fx) \<Rightarrow>
          (Inr \<lparr>success = False, event_id = None, rejection_event_id = Some rejection_id,
                reason = Some ''Duplicate command''\<rparr>, w', fx))"
  shows "world_of y = world_of x" "effects_of y = effects_of x"
    "result_of x = Inl e \<Longrightarrow> result_of y = Inl e"
    "result_of x = Inr rid \<Longrightarrow> result_of y =
        Inr \<lparr>success = False, event_id = None, rejection_event_id = Some rid,
              reason = Some ''Duplicate command''\<rparr>"
  unfolding y_def by (cases x; cases "fst x"; simp)+

lemma digits_0: "digits 0 = ''0''"
  by code_simp

lemma snake_command_rejected: "toSnakeCase ''command_rejected.v1'' = ''command_rejected.v1''"
  by code_simp

lemma gate_permissive:
  "validateEvent permissive_runtime (rejected_event payload eid t) = Inr ()"
  by (simp add: validateEvent_def rejected_event_def permissive_runtime_def
      snake_command_rejected)

lemma gate_conventional:
  "validateEvent conventional_runtime (rejected_event payload eid t) =
     Inl (Error ''No schema registered for command_rejected.v1 (expected command_rejected.v1.v1.json)'')"
  by (simp add: validateEvent_def rejected_event_def conventional_runtime_def
      snake_command_rejected)

lemma world_cmd100_processed: "isProcessed (processedCommands world_cmd100) (command_id cmd100)"
  by (simp add: isProcessed_def world_cmd100_def cmd100_def)

lemma handleRejection_result:
  "result_of (handleRejection rt c err w) = Inr r \<Longrightarrow>
   \<not> success r \<and> event_id r = None \<and> rejection_event_id r \<noteq> None
   \<and> reason r = Some (message err)"
  using handleRejection_parts [of rt c err w] by auto

lemma duplicate_result:
  fixes x :: "(error + string) \<times> 'w \<times> effect list"
  assumes "result_of (case x of
        (Inl e, w', fx) \<Rightarrow> (Inl e, w', fx)
      | (Inr rejection_id, w', fx) \<Rightarrow>
          (Inr \<lparr>success = False, event_id = None, rejection_event_id = Some rejection_id,
                reason = Some ''Duplicate command''\<rparr>, w', fx)) = Inr r"
  shows "\<not> success r \<and> event_id r = None \<and> rejection_event_id r \<noteq> None
   \<and> reason r = Some ''Duplicate command''"
  using assms by (cases x; cases "fst x") auto

text \<open>
  C5. A result returned by \<^verbatim>\<open>handle\<close> has one of two shapes: \<^verbatim>\<open>success=true\<close> with
  \<^verbatim>\<open>event_id\<close> defined and neither \<^verbatim>\<open>rejection_event_id\<close> nor \<^verbatim>\<open>reason\<close>; or
  \<^verbatim>\<open>success=false\<close> with \<^verbatim>\<open>rejection_event_id\<close> and \<^verbatim>\<open>reason\<close> defined and no
  \<^verbatim>\<open>event_id\<close>.
\<close>

theorem handle_result_shape:
  assumes "result_of (handle rt validate execute c w) = Inr r"
  shows "(success r \<and> event_id r \<noteq> None \<and> rejection_event_id r = None \<and> reason r = None)
       \<or> (\<not> success r \<and> event_id r = None \<and> rejection_event_id r \<noteq> None
            \<and> reason r \<noteq> None)"
  using handle_paths [of w c rt validate execute] assms
  by (elim disjE exE conjE)
     (auto dest!: handleRejection_result duplicate_result)

theorem handle_result_shape_witness:
  "(\<exists>r. result_of (handle permissive_runtime test_validate test_execute cmd100 fresh_world) = Inr r
        \<and> success r \<and> event_id r = Some ''evt-success'' \<and> rejection_event_id r = None
        \<and> reason r = None)
   \<and> (\<exists>r. result_of (handle permissive_runtime test_validate test_execute cmd_fail fresh_world)
            = Inr r
        \<and> \<not> success r \<and> event_id r = None \<and> rejection_event_id r = Some ''uuid-0''
        \<and> reason r = Some ''Business rule violation: Test failure'')"
proof -
  have ok: "result_of (handle permissive_runtime test_validate test_execute cmd100 fresh_world)
     = Inr \<lparr>success = True, event_id = Some ''evt-success'', rejection_event_id = None,
             reason = None\<rparr>"
    by (simp add: handle_def isProcessed_def fresh_world_def cmd100_def test_validate_def
        test_execute_def store_markProcessed_def markProcessed_def)
  have "\<not> str_includes ''Business rule violation: Test failure'' ''validation''"
    "\<not> str_includes ''Business rule violation: Test failure'' ''insufficient funds''"
    "\<not> str_includes ''Business rule violation: Test failure'' ''state transition''"
    by simp_all
  then have failed:
    "result_of (handle permissive_runtime test_validate test_execute cmd_fail fresh_world)
     = Inr \<lparr>success = False, event_id = None, rejection_event_id = Some ''uuid-0'',
             reason = Some ''Business rule violation: Test failure''\<rparr>"
    by (simp add: handle_def isProcessed_def fresh_world_def cmd_fail_def test_validate_def
        test_execute_def handleRejection_def emitBusinessRuleViolation_def new_Date_def
        emit_unfold gate_permissive)
       (simp add: permissive_runtime_def digits_0)
  from handle_result_shape [OF ok] handle_result_shape [OF failed] ok failed
  show ?thesis by simp
qed

lemma handle_raised:
  assumes fresh: "\<not> isProcessed (processedCommands w) (command_id c)"
      and raised: "validate c w = (Some err, w1)
                   \<or> (validate c w = (None, w0) \<and> execute c w0 = (Inl err, w1))"
  shows "\<exists>pre. set pre \<subseteq> {Validate, Execute}
           \<and> handle rt validate execute c w =
               (case handleRejection rt c err w1 of (r, w', fx) \<Rightarrow> (r, w', pre @ fx))"
  using raised
proof
  assume "validate c w = (Some err, w1)"
  with fresh have "handle rt validate execute c w =
      (case handleRejection rt c err w1 of (r, w', fx) \<Rightarrow> (r, w', [Validate] @ fx))"
    by (simp add: handle_validate_throws)
  then show ?thesis by (intro exI [of _ "[Validate]"]) simp
next
  assume "validate c w = (None, w0) \<and> execute c w0 = (Inl err, w1)"
  with fresh have "handle rt validate execute c w =
      (case handleRejection rt c err w1 of (r, w', fx) \<Rightarrow> (r, w', [Validate, Execute] @ fx))"
    by (simp add: handle_execute_rejects)
  then show ?thesis by (intro exI [of _ "[Validate, Execute]"]) simp
qed

lemma handleRejection_effects:
  "effects_of (handleRejection rt c err w) = []
   \<or> (\<exists>ev. effects_of (handleRejection rt c err w) = [ConsoleLog ev])"
  using handleRejection_parts [of rt c err w] by auto

lemma emitDuplicateCommand_effects:
  "effects_of (emitDuplicateCommand rt cid ctype corr w) = []
   \<or> (\<exists>ev. effects_of (emitDuplicateCommand rt cid ctype corr w) = [ConsoleLog ev])"
  using emitDuplicateCommand_parts [of rt cid ctype corr w] by auto

text \<open>The effects of a run, path by path.\<close>

lemma handle_effects:
  "(\<exists>fx. effects_of (handle rt validate execute c w) = fx \<and> set fx \<subseteq> range ConsoleLog)
 \<or> (\<exists>fx. effects_of (handle rt validate execute c w) = Validate # fx
        \<and> set fx \<subseteq> range ConsoleLog)
 \<or> (\<exists>fx. effects_of (handle rt validate execute c w) = Validate # Execute # fx
        \<and> set fx \<subseteq> range ConsoleLog)
 \<or> (\<exists>fx w0 w1 ev_id.
        effects_of (handle rt validate execute c w) = Validate # Execute # MarkProcessed # fx
        \<and> set fx \<subseteq> range ConsoleLog
        \<and> validate c w = (None, w0) \<and> execute c w0 = (Inr ev_id, w1))"
proof -
  have rej: "set (effects_of (handleRejection rt c err w')) \<subseteq> range ConsoleLog" for err w'
    using handleRejection_effects [of rt c err w'] by auto
  have dup: "set (effects_of (emitDuplicateCommand rt (command_id c) (command_type c)
                    (correlation_id c) w)) \<subseteq> range ConsoleLog"
    using emitDuplicateCommand_effects [of rt "command_id c" "command_type c" "correlation_id c" w]
    by auto
  from handle_paths [of w c rt validate execute] show ?thesis
  proof (elim disjE exE conjE)
    assume "handle rt validate execute c w =
          (case emitDuplicateCommand rt (command_id c) (command_type c) (correlation_id c) w of
             (Inl e, w', fx) \<Rightarrow> (Inl e, w', fx)
           | (Inr rejection_id, w', fx) \<Rightarrow>
               (Inr \<lparr>success = False, event_id = None, rejection_event_id = Some rejection_id,
                     reason = Some ''Duplicate command''\<rparr>, w', fx))"
    with dup show ?thesis by (simp add: duplicate_result_parts)
  next
    fix err w1
    assume "handle rt validate execute c w =
          (case handleRejection rt c err w1 of (r, w', fx) \<Rightarrow> (r, w', Validate # fx))"
    with rej [of err w1] show ?thesis by simp
  next
    fix err w1 w2
    assume "handle rt validate execute c w =
          (case handleRejection rt c err w2 of
             (r, w', fx) \<Rightarrow> (r, w', Validate # Execute # fx))"
    with rej [of err w2] show ?thesis by simp
  next
    fix ev_id w1 w2
    assume "validate c w = (None, w1)" "execute c w1 = (Inr ev_id, w2)"
      "handle rt validate execute c w =
          (case handleRejection rt c
                  (Error (''Command '' @ command_id c @ '' already processed'')) w2 of
             (r, w', fx) \<Rightarrow> (r, w', Validate # Execute # MarkProcessed # fx))"
    with rej [of "Error (''Command '' @ command_id c @ '' already processed'')" w2]
    show ?thesis by auto
  next
    fix ev_id w1 w2 w3
    assume "validate c w = (None, w1)" "execute c w1 = (Inr ev_id, w2)"
      "handle rt validate execute c w =
          (Inr \<lparr>success = True, event_id = Some ev_id, rejection_event_id = None,
                reason = None\<rparr>, w3, [Validate, Execute, MarkProcessed])"
    then show ?thesis by auto
  qed
qed

text \<open>
  C2. For a command that is not yet in the store: a result with \<^verbatim>\<open>success=true\<close>
  means the run was validate, execute, \<^verbatim>\<open>markProcessed\<close> and the \<^verbatim>\<open>command_id\<close> is
  in the store afterwards. When \<^verbatim>\<open>validate\<close> or \<^verbatim>\<open>execute\<close> raised an error (and
  left the store as it was, the handler being the store's only writer),
  \<^verbatim>\<open>markProcessed\<close> is not called, the \<^verbatim>\<open>command_id\<close> is still absent afterwards,
  and a returned result has \<^verbatim>\<open>success=false\<close> with the error's message as reason.
  \<^verbatim>\<open>markProcessed\<close> is called only in a run where \<^verbatim>\<open>validate\<close> passed and
  \<^verbatim>\<open>execute\<close> returned an event id, and only after both.
\<close>

theorem handle_marks_processed_on_success_only:
  assumes fresh: "\<not> isProcessed (processedCommands w) (command_id c)"
  shows "(\<forall>r. result_of (handle rt validate execute c w) = Inr r \<and> success r \<longrightarrow>
            isProcessed (processedCommands (world_of (handle rt validate execute c w)))
              (command_id c)
          \<and> effects_of (handle rt validate execute c w) = [Validate, Execute, MarkProcessed])
       \<and> ((validate c w = (Some err, w1)
            \<or> (validate c w = (None, w0) \<and> execute c w0 = (Inl err, w1)))
           \<and> processedCommands w1 = processedCommands w \<longrightarrow>
            \<not> isProcessed (processedCommands (world_of (handle rt validate execute c w)))
                (command_id c)
          \<and> MarkProcessed \<notin> set (effects_of (handle rt validate execute c w))
          \<and> (\<forall>r. result_of (handle rt validate execute c w) = Inr r \<longrightarrow>
                 \<not> success r \<and> reason r = Some (message err)))
       \<and> (MarkProcessed \<in> set (effects_of (handle rt validate execute c w)) \<longrightarrow>
            (\<exists>w0 w1 ev_id. validate c w = (None, w0) \<and> execute c w0 = (Inr ev_id, w1))
          \<and> take 3 (effects_of (handle rt validate execute c w))
              = [Validate, Execute, MarkProcessed])"
proof (intro conjI allI impI)
  fix r
  assume "result_of (handle rt validate execute c w) = Inr r \<and> success r"
  with handle_paths [of w c rt validate execute] fresh
  show "isProcessed (processedCommands (world_of (handle rt validate execute c w))) (command_id c)"
    by (elim disjE exE conjE) (auto dest!: handleRejection_result)
next
  fix r
  assume "result_of (handle rt validate execute c w) = Inr r \<and> success r"
  with handle_paths [of w c rt validate execute] fresh
  show "effects_of (handle rt validate execute c w) = [Validate, Execute, MarkProcessed]"
    by (elim disjE exE conjE) (auto dest!: handleRejection_result)
next
  assume a: "(validate c w = (Some err, w1)
            \<or> (validate c w = (None, w0) \<and> execute c w0 = (Inl err, w1)))
           \<and> processedCommands w1 = processedCommands w"
  then have raised: "validate c w = (Some err, w1)
      \<or> (validate c w = (None, w0) \<and> execute c w0 = (Inl err, w1))" by blast
  from handle_raised [where rt = rt and validate = validate and execute = execute
      and c = c and w = w and err = err and ?w1.0 = w1 and ?w0.0 = w0] fresh raised
  obtain pre where
    pre: "set pre \<subseteq> {Validate, Execute}"
    and h: "handle rt validate execute c w =
               (case handleRejection rt c err w1 of (r, w', fx) \<Rightarrow> (r, w', pre @ fx))"
    by blast
  from a fresh handleRejection_parts [of rt c err w1]
  show "\<not> isProcessed (processedCommands (world_of (handle rt validate execute c w)))
                (command_id c)"
    by (simp add: h)
  from pre handleRejection_effects [of rt c err w1]
  show "MarkProcessed \<notin> set (effects_of (handle rt validate execute c w))"
    by (auto simp: h)
  fix r
  assume "result_of (handle rt validate execute c w) = Inr r"
  then have "result_of (handleRejection rt c err w1) = Inr r" by (simp add: h)
  from handleRejection_result [OF this]
  have res: "\<not> success r \<and> reason r = Some (message err)" by simp
  from res show "\<not> success r" by simp
  from res show "reason r = Some (message err)" by simp
next
  assume m: "MarkProcessed \<in> set (effects_of (handle rt validate execute c w))"
  with handle_effects [of rt validate execute c w]
  show "\<exists>w0 w1 ev_id. validate c w = (None, w0) \<and> execute c w0 = (Inr ev_id, w1)"
    by (elim disjE exE conjE) auto
next
  assume m: "MarkProcessed \<in> set (effects_of (handle rt validate execute c w))"
  with handle_effects [of rt validate execute c w]
  show "take 3 (effects_of (handle rt validate execute c w)) = [Validate, Execute, MarkProcessed]"
    by (elim disjE exE conjE) auto
qed

text \<open>Runs of the test handler from a fresh process, with the permissive registry.\<close>

lemma fresh_world_unprocessed: "\<not> isProcessed (processedCommands fresh_world) cid"
  by (simp add: isProcessed_def fresh_world_def)

lemma run_cmd100:
  "handle permissive_runtime test_validate test_execute cmd100 fresh_world =
     (Inr \<lparr>success = True, event_id = Some ''evt-success'', rejection_event_id = None,
           reason = None\<rparr>,
      fresh_world\<lparr>processedCommands :=
          [''cmd-100'' \<mapsto> \<lparr>rec_command_id = ''cmd-100'', rec_command_type = ''Test'',
                            processed_at = ''2024-12-17T10:00:00Z'',
                            result_event_id = Some ''evt-success''\<rparr>],
        clock_reads := 1\<rparr>,
      [Validate, Execute, MarkProcessed])"
  by (simp add: handle_def isProcessed_def fresh_world_def cmd100_def test_validate_def
      test_execute_def store_markProcessed_def markProcessed_def permissive_runtime_def digits_0)

lemma test_failure_message:
  "\<not> str_includes ''Business rule violation: Test failure'' ''validation''"
  "\<not> str_includes ''Business rule violation: Test failure'' ''insufficient funds''"
  "\<not> str_includes ''Business rule violation: Test failure'' ''state transition''"
  "str_includes ''validation: Missing command_id'' ''validation''"
  by simp_all

lemma run_cmd_fail:
  "\<exists>ev. handle permissive_runtime test_validate test_execute cmd_fail fresh_world =
     (Inr \<lparr>success = False, event_id = None, rejection_event_id = Some ''uuid-0'',
           reason = Some ''Business rule violation: Test failure''\<rparr>,
      fresh_world\<lparr>clock_reads := 2, uuid_calls := 1\<rparr>,
      [Validate, Execute, ConsoleLog ev])"
  using test_failure_message
  by (simp add: handle_def isProcessed_def fresh_world_def cmd_fail_def test_validate_def
      test_execute_def handleRejection_def emitBusinessRuleViolation_def new_Date_def
      emit_unfold gate_permissive)
     (simp add: permissive_runtime_def digits_0 numeral_2_eq_2)

lemma run_cmd_empty:
  "\<exists>ev. handle permissive_runtime test_validate test_execute cmd_empty fresh_world =
     (Inr \<lparr>success = False, event_id = None, rejection_event_id = Some ''uuid-0'',
           reason = Some ''validation: Missing command_id''\<rparr>,
      fresh_world\<lparr>clock_reads := 2, uuid_calls := 1\<rparr>,
      [Validate, ConsoleLog ev])"
  using test_failure_message
  by (simp add: handle_def isProcessed_def fresh_world_def cmd_empty_def test_validate_def
      test_execute_def handleRejection_def emitInvalidSchema_def new_Date_def
      emit_unfold gate_permissive)
     (simp add: permissive_runtime_def digits_0 numeral_2_eq_2)

lemma test_handler_cmd_fail:
  "test_validate cmd_fail fresh_world = (None, fresh_world)"
  "test_execute cmd_fail fresh_world
     = (Inl (Error ''Business rule violation: Test failure''), fresh_world)"
  by (simp_all add: test_validate_def test_execute_def cmd_fail_def)

lemma test_handler_cmd_empty:
  "test_validate cmd_empty fresh_world
     = (Some (Error ''validation: Missing command_id''), fresh_world)"
  by (simp add: test_validate_def cmd_empty_def)

theorem handle_marks_processed_on_success_only_witness:
  "\<not> isProcessed (processedCommands fresh_world) (command_id cmd100)
   \<and> (\<exists>r. result_of (handle permissive_runtime test_validate test_execute cmd100 fresh_world)
             = Inr r \<and> success r)
   \<and> isProcessed (processedCommands (world_of
         (handle permissive_runtime test_validate test_execute cmd100 fresh_world)))
       (command_id cmd100)
   \<and> MarkProcessed \<in> set (effects_of
         (handle permissive_runtime test_validate test_execute cmd100 fresh_world))
   \<and> test_validate cmd_fail fresh_world = (None, fresh_world)
   \<and> test_execute cmd_fail fresh_world
       = (Inl (Error ''Business rule violation: Test failure''), fresh_world)
   \<and> \<not> isProcessed (processedCommands (world_of
         (handle permissive_runtime test_validate test_execute cmd_fail fresh_world)))
       (command_id cmd_fail)
   \<and> MarkProcessed \<notin> set (effects_of
         (handle permissive_runtime test_validate test_execute cmd_fail fresh_world))"
proof -
  have ok: "result_of (handle permissive_runtime test_validate test_execute cmd100 fresh_world)
      = Inr \<lparr>success = True, event_id = Some ''evt-success'', rejection_event_id = None,
              reason = None\<rparr>
    \<and> success \<lparr>success = True, event_id = Some ''evt-success'', rejection_event_id = None,
              reason = None\<rparr>"
    by (simp add: run_cmd100)
  have fx: "MarkProcessed \<in> set (effects_of
         (handle permissive_runtime test_validate test_execute cmd100 fresh_world))"
    by (simp add: run_cmd100)
  note t100 = handle_marks_processed_on_success_only
      [where w = fresh_world and c = cmd100 and rt = permissive_runtime
         and validate = test_validate and execute = test_execute,
       OF fresh_world_unprocessed]
  note tfail = handle_marks_processed_on_success_only
      [where w = fresh_world and c = cmd_fail and rt = permissive_runtime
         and validate = test_validate and execute = test_execute
         and err = "Error ''Business rule violation: Test failure''"
         and ?w0.0 = fresh_world and ?w1.0 = fresh_world,
       OF fresh_world_unprocessed]
  from t100 ok have a: "isProcessed (processedCommands (world_of
         (handle permissive_runtime test_validate test_execute cmd100 fresh_world)))
       (command_id cmd100)"
    by blast
  from tfail test_handler_cmd_fail
  have b: "\<not> isProcessed (processedCommands (world_of
         (handle permissive_runtime test_validate test_execute cmd_fail fresh_world)))
       (command_id cmd_fail)
    \<and> MarkProcessed \<notin> set (effects_of
         (handle permissive_runtime test_validate test_execute cmd_fail fresh_world))"
    by simp
  from a b ok fx test_handler_cmd_fail fresh_world_unprocessed show ?thesis
    by blast
qed

lemma handleRejection_logged_code:
  assumes "ConsoleLog ev \<in> set (effects_of (handleRejection rt c err w))"
  shows "getProp (getProp ev ''payload'') ''reason_code''
           \<in> {JStr ''INVALID_SCHEMA'', JStr ''INSUFFICIENT_FUNDS'',
               JStr ''INVALID_STATE_TRANSITION'', JStr ''BUSINESS_RULE_VIOLATION''}"
  using handleRejection_parts [of rt c err w] assms
  by (elim conjE disjE exE) (simp_all split: if_splits)

lemma emitDuplicateCommand_logged_code:
  assumes "ConsoleLog ev \<in> set (effects_of (emitDuplicateCommand rt cid ctype corr w))"
  shows "getProp (getProp ev ''payload'') ''reason_code'' = JStr ''DUPLICATE_COMMAND''"
  using emitDuplicateCommand_parts [of rt cid ctype corr w] assms
  by (elim conjE disjE exE) simp_all

lemma handle_logged_code:
  assumes "ConsoleLog ev \<in> set (effects_of (handle rt validate execute c w))"
  shows "getProp (getProp ev ''payload'') ''reason_code''
           \<in> {JStr ''DUPLICATE_COMMAND'', JStr ''INVALID_SCHEMA'', JStr ''INSUFFICIENT_FUNDS'',
               JStr ''INVALID_STATE_TRANSITION'', JStr ''BUSINESS_RULE_VIOLATION''}"
  using handle_paths [of w c rt validate execute]
proof (elim disjE exE conjE)
  assume "handle rt validate execute c w =
          (case emitDuplicateCommand rt (command_id c) (command_type c) (correlation_id c) w of
             (Inl e, w', fx) \<Rightarrow> (Inl e, w', fx)
           | (Inr rejection_id, w', fx) \<Rightarrow>
               (Inr \<lparr>success = False, event_id = None, rejection_event_id = Some rejection_id,
                     reason = Some ''Duplicate command''\<rparr>, w', fx))"
  with assms have "ConsoleLog ev \<in> set (effects_of
      (emitDuplicateCommand rt (command_id c) (command_type c) (correlation_id c) w))"
    by (simp add: duplicate_result_parts)
  from emitDuplicateCommand_logged_code [OF this] show ?thesis by simp
next
  fix err w1
  assume "handle rt validate execute c w =
          (case handleRejection rt c err w1 of (r, w', fx) \<Rightarrow> (r, w', Validate # fx))"
  with assms have "ConsoleLog ev \<in> set (effects_of (handleRejection rt c err w1))" by simp
  from handleRejection_logged_code [OF this] show ?thesis by auto
next
  fix err w1 w2
  assume "handle rt validate execute c w =
          (case handleRejection rt c err w2 of
             (r, w', fx) \<Rightarrow> (r, w', Validate # Execute # fx))"
  with assms have "ConsoleLog ev \<in> set (effects_of (handleRejection rt c err w2))" by simp
  from handleRejection_logged_code [OF this] show ?thesis by auto
next
  fix ev_id w1 w2
  assume "handle rt validate execute c w =
          (case handleRejection rt c
                  (Error (''Command '' @ command_id c @ '' already processed'')) w2 of
             (r, w', fx) \<Rightarrow> (r, w', Validate # Execute # MarkProcessed # fx))"
  with assms have "ConsoleLog ev \<in> set (effects_of (handleRejection rt c
      (Error (''Command '' @ command_id c @ '' already processed'')) w2))" by simp
  from handleRejection_logged_code [OF this] show ?thesis by auto
next
  fix ev_id w1 w2 w3
  assume "handle rt validate execute c w =
          (Inr \<lparr>success = True, event_id = Some ev_id, rejection_event_id = None,
                reason = None\<rparr>, w3, [Validate, Execute, MarkProcessed])"
  with assms show ?thesis by simp
qed

section \<open>Two calls for one command\<close>

text \<open>Run without a second call in between, the two parts are \<^verbatim>\<open>handle\<close>.\<close>

lemma handle_start_resume:
  "handle rt validate execute c w =
     (case handle_start rt validate execute c w of
        (s, w1, f1) \<Rightarrow>
          (case handle_resume rt c s w1 of (r, w2, f2) \<Rightarrow> (r, w2, f1 @ f2)))"
  by (simp add: handle_def handle_start_def handle_resume_def
      split: prod.splits option.splits sum.splits)

lemma already_processed_message:
  "\<not> str_includes ''Command cmd-100 already processed'' ''validation''"
  "\<not> str_includes ''Command cmd-100 already processed'' ''insufficient funds''"
  "\<not> str_includes ''Command cmd-100 already processed'' ''state transition''"
  by simp_all

text \<open>
  C4. Two calls of \<^verbatim>\<open>handle\<close> for the same \<^verbatim>\<open>command_id\<close>, issued in the same turn on
  a fresh store with the test handler. The claim asks that exactly one of them
  runs \<^verbatim>\<open>execute\<close> and that the other resolves as a duplicate. In the code the
  duplicate check and \<^verbatim>\<open>markProcessed\<close> are separated by the suspension at
  \<^verbatim>\<open>await this.execute(command)\<close>: both calls pass the check and both run
  \<^verbatim>\<open>execute\<close>. The first returns success; the second fails in \<^verbatim>\<open>markProcessed\<close>
  and is rejected with the reason \<^verbatim>\<open>Command cmd-100 already processed\<close>, not
  \<^verbatim>\<open>Duplicate command\<close>.
\<close>

theorem concurrent_duplicates_both_execute:
  "fst (handle_concurrently permissive_runtime test_validate test_execute cmd100 cmd100
          fresh_world)
     = (Inr \<lparr>success = True, event_id = Some ''evt-success'', rejection_event_id = None,
             reason = None\<rparr>,
        [Validate, Execute, MarkProcessed])
   \<and> fst (fst (snd (handle_concurrently permissive_runtime test_validate test_execute
                     cmd100 cmd100 fresh_world)))
     = Inr \<lparr>success = False, event_id = None, rejection_event_id = Some ''uuid-0'',
             reason = Some ''Command cmd-100 already processed''\<rparr>
   \<and> take 3 (snd (fst (snd (handle_concurrently permissive_runtime test_validate test_execute
                     cmd100 cmd100 fresh_world))))
     = [Validate, Execute, MarkProcessed]
   \<and> Execute \<in> set (snd (fst (snd (handle_concurrently permissive_runtime test_validate
                     test_execute cmd100 cmd100 fresh_world))))"
  using already_processed_message
  by (simp add: handle_concurrently_def handle_start_def handle_resume_def isProcessed_def
      fresh_world_def cmd100_def test_validate_def test_execute_def store_markProcessed_def
      markProcessed_def handleRejection_def emitBusinessRuleViolation_def new_Date_def
      emit_unfold gate_permissive)
     (simp add: permissive_runtime_def digits_0)

section \<open>Properties of the name mapping\<close>

lemma upper_of_lower:
  assumes "is_lower c"
  shows "is_upper (toUpperChar c)" "toLowerChar (toUpperChar c) = c"
proof -
  let ?n = "of_char c :: nat"
  from assms have n: "97 \<le> ?n" "?n \<le> 122" by (simp_all add: is_lower_def)
  then have m: "(?n - 32) mod 256 = ?n - 32" by simp
  from n have r: "65 \<le> ?n - 32" "?n - 32 \<le> 90" "?n - 32 + 32 = ?n" by arith+
  from assms m r show "is_upper (toUpperChar c)"
    by (simp add: toUpperChar_def is_upper_def)
  from assms m r show "toLowerChar (toUpperChar c) = c"
    by (simp add: toUpperChar_def toLowerChar_def is_upper_def)
qed

lemma not_upper:
  "is_lower d \<or> is_digit d \<Longrightarrow> \<not> is_upper d"
  by (auto simp: is_lower_def is_digit_def is_upper_def)

lemma splitStr_nonempty: "splitStr sep s \<noteq> []"
  by (induction s) (auto split: list.splits)

lemma split_join: "concat (map ((#) sep) (splitStr sep s)) = sep # s"
  by (induction s) (auto split: list.splits simp: splitStr_nonempty)

section \<open>What the rejection helpers submit\<close>

text \<open>
  \<^verbatim>\<open>emit\<close> draws one UUID and one clock reading, builds the event, and lets the
  gate decide.
\<close>

lemma emit_run:
  "emit rt payload (w\<lparr>clock_reads := Suc (clock_reads w)\<rparr>) =
     (case validateEvent rt (rejected_event payload (uuid_source rt (uuid_calls w))
                               (clock rt (Suc (clock_reads w)))) of
        Inl e \<Rightarrow> (Inl e, after_emission w, [])
      | Inr u \<Rightarrow> (Inr (uuid_source rt (uuid_calls w)), after_emission w,
                  [ConsoleLog (rejected_event payload (uuid_source rt (uuid_calls w))
                                 (clock rt (Suc (clock_reads w))))]))"
  by (simp add: emit_unfold after_emission_def split: sum.splits)

text \<open>
  C9. Each of the five rejection helpers reads the clock, draws a new UUID
  (one that differs from every id drawn before, the generator being
  injective), and submits to the gate the event built from its payload: that
  event carries the new id as \<^verbatim>\<open>event_id\<close>, its \<^verbatim>\<open>rejected_at\<close> is the clock
  reading taken when the helper was entered, and its \<^verbatim>\<open>correlation_id\<close> is the
  caller's, or the new id when the caller gave none (or an empty one). The
  helper returns the new id and logs that event when the gate accepts it, and
  throws the gate's error otherwise; this holds for every registry.
\<close>

theorem rejection_helpers_stamp_event:
  assumes helper:
    "(helper, payload) \<in>
       {(emitDuplicateCommand rt cid ctype corr,
         \<lparr>p_command_id = cid, p_command_type = ctype, p_reason_code = DUPLICATE_COMMAND,
          p_reason_message = ''Command '' @ cid @ '' has already been processed'',
          p_rejected_at = clock rt (clock_reads w), p_correlation_id = corr,
          p_metadata = None\<rparr>),
        (emitInvalidSchema rt cid ctype verr corr,
         \<lparr>p_command_id = cid, p_command_type = ctype, p_reason_code = INVALID_SCHEMA,
          p_reason_message = ''Command validation failed: '' @ verr,
          p_rejected_at = clock rt (clock_reads w), p_correlation_id = corr,
          p_metadata = Some [(''validation_error'', JStr verr)]\<rparr>),
        (emitBusinessRuleViolation rt cid ctype rule corr,
         \<lparr>p_command_id = cid, p_command_type = ctype,
          p_reason_code = BUSINESS_RULE_VIOLATION,
          p_reason_message = ''Business rule violation: '' @ rule,
          p_rejected_at = clock rt (clock_reads w), p_correlation_id = corr,
          p_metadata = Some [(''rule_violation'', JStr rule)]\<rparr>),
        (emitInsufficientFunds rt cid ctype req avail corr,
         \<lparr>p_command_id = cid, p_command_type = ctype, p_reason_code = INSUFFICIENT_FUNDS,
          p_reason_message = ''Insufficient funds: required '' @ number_toString req
             @ '', available '' @ number_toString avail,
          p_rejected_at = clock rt (clock_reads w), p_correlation_id = corr,
          p_metadata = Some [(''required_amount'', JNum req),
                             (''available_amount'', JNum avail)]\<rparr>),
        (emitInvalidStateTransition rt cid ctype cur att corr,
         \<lparr>p_command_id = cid, p_command_type = ctype,
          p_reason_code = INVALID_STATE_TRANSITION,
          p_reason_message = ''Invalid state transition: '' @ cur @ '' -> '' @ att,
          p_rejected_at = clock rt (clock_reads w), p_correlation_id = corr,
          p_metadata = Some [(''current_state'', JStr cur),
                             (''attempted_transition'', JStr att)]\<rparr>)}"
  defines "new_id \<equiv> uuid_source rt (uuid_calls w)"
  defines "event \<equiv> rejected_event payload new_id (clock rt (Suc (clock_reads w)))"
  shows "helper w =
           (case validateEvent rt event of
              Inl e \<Rightarrow> (Inl e, after_emission w, [])
            | Inr u \<Rightarrow> (Inr new_id, after_emission w, [ConsoleLog event]))
       \<and> uuid_calls (after_emission w) = Suc (uuid_calls w)
       \<and> (inj (uuid_source rt) \<longrightarrow> (\<forall>n < uuid_calls w. uuid_source rt n \<noteq> new_id))
       \<and> getProp event ''event_id'' = JStr new_id
       \<and> getProp (getProp event ''payload'') ''rejected_at'' = JStr (clock rt (clock_reads w))
       \<and> getProp event ''correlation_id'' =
            JStr (case corr of None \<Rightarrow> new_id | Some given \<Rightarrow> if given = [] then new_id else given)
       \<and> getProp (getProp event ''payload'') ''command_id'' = JStr cid
       \<and> getProp (getProp event ''payload'') ''reason_code'' =
            JStr (reason_value (p_reason_code payload))"
proof -
  have run: "helper w = emit rt payload (w\<lparr>clock_reads := Suc (clock_reads w)\<rparr>)"
    and fields: "p_rejected_at payload = clock rt (clock_reads w)"
      "p_correlation_id payload = corr" "p_command_id payload = cid"
    using helper
    by (auto simp: emitDuplicateCommand_def emitInvalidSchema_def emitBusinessRuleViolation_def
        emitInsufficientFunds_def emitInvalidStateTransition_def new_Date_def)
  have fresh: "inj (uuid_source rt) \<longrightarrow> (\<forall>n < uuid_calls w. uuid_source rt n \<noteq> new_id)"
    unfolding new_id_def by (auto dest: injD)
  have corr: "getProp event ''correlation_id'' =
            JStr (case corr of None \<Rightarrow> new_id | Some given \<Rightarrow> if given = [] then new_id else given)"
    using fields by (simp add: event_def rejected_event_def)
  from run fields fresh corr show ?thesis
    unfolding event_def new_id_def
    by (simp add: emit_run rejected_event_fields after_emission_def)
qed

lemma fresh_readings:
  "uuid_source permissive_runtime (uuid_calls fresh_world) = ''uuid-0''"
  "clock permissive_runtime (clock_reads fresh_world) = ''2024-12-17T10:00:00Z''"
  "uuid_source conventional_runtime (uuid_calls fresh_world) = ''uuid-0''"
  "clock conventional_runtime (clock_reads fresh_world) = ''2024-12-17T10:00:00Z''"
  by (simp_all add: permissive_runtime_def conventional_runtime_def fresh_world_def digits_0)

theorem rejection_helpers_stamp_event_witness:
  "(\<exists>ev. emitDuplicateCommand permissive_runtime ''cmd-001'' ''InitiatePayment''
            (Some ''corr-001'') fresh_world
          = (Inr ''uuid-0'', after_emission fresh_world, [ConsoleLog ev])
        \<and> getProp ev ''event_id'' = JStr ''uuid-0''
        \<and> getProp (getProp ev ''payload'') ''rejected_at'' = JStr ''2024-12-17T10:00:00Z''
        \<and> getProp ev ''correlation_id'' = JStr ''corr-001''
        \<and> getProp (getProp ev ''payload'') ''reason_code'' = JStr ''DUPLICATE_COMMAND'')
   \<and> (\<exists>ev. emitInvalidSchema permissive_runtime ''cmd-001'' ''InitiatePayment''
            ''Missing required field: amount'' None fresh_world
          = (Inr ''uuid-0'', after_emission fresh_world, [ConsoleLog ev])
        \<and> getProp ev ''event_id'' = JStr ''uuid-0''
        \<and> getProp (getProp ev ''payload'') ''rejected_at'' = JStr ''2024-12-17T10:00:00Z''
        \<and> getProp ev ''correlation_id'' = JStr ''uuid-0''
        \<and> getProp (getProp ev ''payload'') ''reason_code'' = JStr ''INVALID_SCHEMA'')
   \<and> (\<exists>ev. emitBusinessRuleViolation permissive_runtime ''cmd-001'' ''InitiatePayment''
            ''Payment amount exceeds daily limit'' None fresh_world
          = (Inr ''uuid-0'', after_emission fresh_world, [ConsoleLog ev])
        \<and> getProp ev ''event_id'' = JStr ''uuid-0''
        \<and> getProp (getProp ev ''payload'') ''rejected_at'' = JStr ''2024-12-17T10:00:00Z''
        \<and> getProp ev ''correlation_id'' = JStr ''uuid-0''
        \<and> getProp (getProp ev ''payload'') ''reason_code'' = JStr ''BUSINESS_RULE_VIOLATION'')
   \<and> (\<exists>ev. emitInsufficientFunds permissive_runtime ''cmd-001'' ''InitiatePayment''
            1000 500 None fresh_world
          = (Inr ''uuid-0'', after_emission fresh_world, [ConsoleLog ev])
        \<and> getProp ev ''event_id'' = JStr ''uuid-0''
        \<and> getProp (getProp ev ''payload'') ''rejected_at'' = JStr ''2024-12-17T10:00:00Z''
        \<and> getProp ev ''correlation_id'' = JStr ''uuid-0''
        \<and> getProp (getProp ev ''payload'') ''reason_code'' = JStr ''INSUFFICIENT_FUNDS'')
   \<and> (\<exists>ev. emitInvalidStateTransition permissive_runtime ''cmd-001'' ''InitiatePayment''
            ''Settled'' ''Initiate'' None fresh_world
          = (Inr ''uuid-0'', after_emission fresh_world, [ConsoleLog ev])
        \<and> getProp ev ''event_id'' = JStr ''uuid-0''
        \<and> getProp (getProp ev ''payload'') ''rejected_at'' = JStr ''2024-12-17T10:00:00Z''
        \<and> getProp ev ''correlation_id'' = JStr ''uuid-0''
        \<and> getProp (getProp ev ''payload'') ''reason_code'' = JStr ''INVALID_STATE_TRANSITION'')
   \<and> emitInsufficientFunds conventional_runtime ''cmd-001'' ''InitiatePayment''
            1000 500 None fresh_world
          = (Inl (Error ''No schema registered for command_rejected.v1 (expected command_rejected.v1.v1.json)''),
             after_emission fresh_world, [])"
proof -
  let ?payload = "\<lambda>corr code msg md.
       \<lparr>p_command_id = ''cmd-001'', p_command_type = ''InitiatePayment'',
        p_reason_code = code, p_reason_message = msg,
        p_rejected_at = clock permissive_runtime (clock_reads fresh_world),
        p_correlation_id = corr, p_metadata = md\<rparr>"
  let ?dup = "\<lambda>corr. ?payload corr DUPLICATE_COMMAND
       (''Command '' @ ''cmd-001'' @ '' has already been processed'') None"
  let ?schema = "\<lambda>corr. ?payload corr INVALID_SCHEMA
       (''Command validation failed: '' @ ''Missing required field: amount'')
       (Some [(''validation_error'', JStr ''Missing required field: amount'')])"
  let ?rule = "\<lambda>corr. ?payload corr BUSINESS_RULE_VIOLATION
       (''Business rule violation: '' @ ''Payment amount exceeds daily limit'')
       (Some [(''rule_violation'', JStr ''Payment amount exceeds daily limit'')])"
  let ?funds = "\<lambda>corr. ?payload corr INSUFFICIENT_FUNDS
       (''Insufficient funds: required '' @ number_toString 1000
          @ '', available '' @ number_toString 500)
       (Some [(''required_amount'', JNum 1000), (''available_amount'', JNum 500)])"
  let ?state = "\<lambda>corr. ?payload corr INVALID_STATE_TRANSITION
       (''Invalid state transition: '' @ ''Settled'' @ '' -> '' @ ''Initiate'')
       (Some [(''current_state'', JStr ''Settled''),
              (''attempted_transition'', JStr ''Initiate'')])"
  have gen: "\<exists>ev. helper fresh_world = (Inr ''uuid-0'', after_emission fresh_world, [ConsoleLog ev])
        \<and> getProp ev ''event_id'' = JStr ''uuid-0''
        \<and> getProp (getProp ev ''payload'') ''rejected_at'' = JStr ''2024-12-17T10:00:00Z''
        \<and> getProp ev ''correlation_id'' =
             JStr (case corr of None \<Rightarrow> ''uuid-0''
                   | Some given \<Rightarrow> if given = [] then ''uuid-0'' else given)
        \<and> getProp (getProp ev ''payload'') ''reason_code''
             = JStr (reason_value (p_reason_code payload))"
    if mem: "(helper, payload) \<in>
       {(emitDuplicateCommand permissive_runtime ''cmd-001'' ''InitiatePayment'' corr, ?dup corr),
        (emitInvalidSchema permissive_runtime ''cmd-001'' ''InitiatePayment''
           ''Missing required field: amount'' corr, ?schema corr),
        (emitBusinessRuleViolation permissive_runtime ''cmd-001'' ''InitiatePayment''
           ''Payment amount exceeds daily limit'' corr, ?rule corr),
        (emitInsufficientFunds permissive_runtime ''cmd-001'' ''InitiatePayment'' 1000 500 corr,
           ?funds corr),
        (emitInvalidStateTransition permissive_runtime ''cmd-001'' ''InitiatePayment''
           ''Settled'' ''Initiate'' corr, ?state corr)}"
    for helper payload corr
    using rejection_helpers_stamp_event [OF mem]
    by (simp add: gate_permissive fresh_readings split: option.splits)
  have thrown: "emitInsufficientFunds conventional_runtime ''cmd-001'' ''InitiatePayment''
            1000 500 None fresh_world
          = (Inl (Error ''No schema registered for command_rejected.v1 (expected command_rejected.v1.v1.json)''),
             after_emission fresh_world, [])"
    using rejection_helpers_stamp_event
      [where rt = conventional_runtime and w = fresh_world and cid = "''cmd-001''"
         and ctype = "''InitiatePayment''" and corr = None and req = 1000 and avail = 500
         and helper = "emitInsufficientFunds conventional_runtime ''cmd-001'' ''InitiatePayment''
               1000 500 None"
         and payload = "\<lparr>p_command_id = ''cmd-001'', p_command_type = ''InitiatePayment'',
          p_reason_code = INSUFFICIENT_FUNDS,
          p_reason_message = ''Insufficient funds: required '' @ number_toString 1000
             @ '', available '' @ number_toString 500,
          p_rejected_at = clock conventional_runtime (clock_reads fresh_world),
          p_correlation_id = None,
          p_metadata = Some [(''required_amount'', JNum 1000),
                             (''available_amount'', JNum 500)]\<rparr>"]
    by (simp add: gate_conventional)
  have 1: "(emitDuplicateCommand permissive_runtime ''cmd-001'' ''InitiatePayment''
              (Some ''corr-001''), ?dup (Some ''corr-001'')) \<in>
       {(emitDuplicateCommand permissive_runtime ''cmd-001'' ''InitiatePayment''
           (Some ''corr-001''), ?dup (Some ''corr-001'')),
        (emitInvalidSchema permissive_runtime ''cmd-001'' ''InitiatePayment''
           ''Missing required field: amount'' (Some ''corr-001''), ?schema (Some ''corr-001'')),
        (emitBusinessRuleViolation permissive_runtime ''cmd-001'' ''InitiatePayment''
           ''Payment amount exceeds daily limit'' (Some ''corr-001''), ?rule (Some ''corr-001'')),
        (emitInsufficientFunds permissive_runtime ''cmd-001'' ''InitiatePayment'' 1000 500
           (Some ''corr-001''), ?funds (Some ''corr-001'')),
        (emitInvalidStateTransition permissive_runtime ''cmd-001'' ''InitiatePayment''
           ''Settled'' ''Initiate'' (Some ''corr-001''), ?state (Some ''corr-001''))}"
    by (rule insertI1)
  let ?S = "{(emitDuplicateCommand permissive_runtime ''cmd-001'' ''InitiatePayment'' None,
               ?dup None),
        (emitInvalidSchema permissive_runtime ''cmd-001'' ''InitiatePayment''
           ''Missing required field: amount'' None, ?schema None),
        (emitBusinessRuleViolation permissive_runtime ''cmd-001'' ''InitiatePayment''
           ''Payment amount exceeds daily limit'' None, ?rule None),
        (emitInsufficientFunds permissive_runtime ''cmd-001'' ''InitiatePayment'' 1000 500 None,
           ?funds None),
        (emitInvalidStateTransition permissive_runtime ''cmd-001'' ''InitiatePayment''
           ''Settled'' ''Initiate'' None, ?state None)}"
  have 2: "(emitInvalidSchema permissive_runtime ''cmd-001'' ''InitiatePayment''
           ''Missing required field: amount'' None, ?schema None) \<in> ?S"
    by (intro insertI1 insertI2)
  have 3: "(emitBusinessRuleViolation permissive_runtime ''cmd-001'' ''InitiatePayment''
           ''Payment amount exceeds daily limit'' None, ?rule None) \<in> ?S"
    by (intro insertI1 insertI2)
  have 4: "(emitInsufficientFunds permissive_runtime ''cmd-001'' ''InitiatePayment'' 1000 500 None,
           ?funds None) \<in> ?S"
    by (intro insertI1 insertI2)
  have 5: "(emitInvalidStateTransition permissive_runtime ''cmd-001'' ''InitiatePayment''
           ''Settled'' ''Initiate'' None, ?state None) \<in> ?S"
    by (intro insertI1 insertI2)
  from gen [OF 1] gen [OF 2] gen [OF 3] gen [OF 4] gen [OF 5] thrown
  show ?thesis by simp
qed

section \<open>Rejections by the handler\<close>

text \<open>
  The three ways \<^verbatim>\<open>handle\<close> reaches the emitter, each reduced to one question
  put to the gate about one event.
\<close>

lemma handleRejection_run:
  "handleRejection rt c err w =
     (case validateEvent rt (expected_rejection rt c err w) of
        Inl e \<Rightarrow> (Inl e, after_emission w, [])
      | Inr u \<Rightarrow>
          (Inr \<lparr>success = False, event_id = None,
                rejection_event_id = Some (uuid_source rt (uuid_calls w)),
                reason = Some (message err)\<rparr>,
           after_emission w, [ConsoleLog (expected_rejection rt c err w)]))"
  by (cases "str_includes (message err) ''validation''";
      cases "str_includes (message err) ''insufficient funds''";
      cases "str_includes (message err) ''state transition''")
     (simp_all add: handleRejection_def emitInvalidSchema_def emitBusinessRuleViolation_def
        emitInsufficientFunds_def emitInvalidStateTransition_def new_Date_def emit_run
        expected_rejection_def classified_reason_def number_toString_def digits_0
        split: sum.splits)

lemma handle_duplicate_run:
  assumes "isProcessed (processedCommands w) (command_id c)"
  shows "handle rt validate execute c w =
     (case validateEvent rt (duplicate_rejection rt c w) of
        Inl e \<Rightarrow> (Inl e, after_emission w, [])
      | Inr u \<Rightarrow>
          (Inr \<lparr>success = False, event_id = None,
                rejection_event_id = Some (uuid_source rt (uuid_calls w)),
                reason = Some ''Duplicate command''\<rparr>,
           after_emission w, [ConsoleLog (duplicate_rejection rt c w)]))"
  using assms
  by (simp add: handle_processed emitDuplicateCommand_def new_Date_def emit_run
      duplicate_rejection_def split: sum.splits)

lemma handle_raised_run:
  assumes fresh: "\<not> isProcessed (processedCommands w) (command_id c)"
      and raised: "validate c w = (Some err, w1)
                   \<or> (validate c w = (None, w0) \<and> execute c w0 = (Inl err, w1))"
  shows "handle rt validate execute c w =
     (case validateEvent rt (expected_rejection rt c err w1) of
        Inl e \<Rightarrow> (Inl e, after_emission w1, invoked_before_rejection (fst (validate c w)))
      | Inr u \<Rightarrow>
          (Inr \<lparr>success = False, event_id = None,
                rejection_event_id = Some (uuid_source rt (uuid_calls w1)),
                reason = Some (message err)\<rparr>,
           after_emission w1,
           invoked_before_rejection (fst (validate c w))
             @ [ConsoleLog (expected_rejection rt c err w1)]))"
  using raised
proof
  assume "validate c w = (Some err, w1)"
  with fresh show ?thesis
    by (simp add: handle_validate_throws handleRejection_run invoked_before_rejection_def
        split: sum.splits)
next
  assume "validate c w = (None, w0) \<and> execute c w0 = (Inl err, w1)"
  with fresh show ?thesis
    by (simp add: handle_execute_rejects handleRejection_run invoked_before_rejection_def
        split: sum.splits)
qed

lemma expected_rejection_fields:
  "getProp (expected_rejection rt c err w) ''event_type'' = JStr ''command_rejected.v1''"
  "getProp (expected_rejection rt c err w) ''event_id'' = JStr (uuid_source rt (uuid_calls w))"
  "getProp (getProp (expected_rejection rt c err w) ''payload'') ''command_id''
     = JStr (command_id c)"
  "getProp (getProp (expected_rejection rt c err w) ''payload'') ''reason_code''
     = JStr (reason_value (classified_reason (message err)))"
  "getProp (getProp (expected_rejection rt c err w) ''payload'') ''metadata''
     = JObj (classified_metadata (classified_reason (message err)) (message err))"
  by (simp_all add: expected_rejection_def rejected_event_fields)

lemma world_cmd100_readings:
  "uuid_source permissive_runtime (uuid_calls world_cmd100) = ''uuid-0''"
  "uuid_source conventional_runtime (uuid_calls world_cmd100) = ''uuid-0''"
  by (simp_all add: permissive_runtime_def conventional_runtime_def world_cmd100_def digits_0)

text \<open>
  C1. The claim asks that \<^verbatim>\<open>handle\<close>, for a command whose \<^verbatim>\<open>command_id\<close> is in the
  store, returns \<^verbatim>\<open>success=false\<close> with reason \<^verbatim>\<open>Duplicate command\<close> and a
  rejection event id. The emitter stamps the rejection event with the type
  \<^verbatim>\<open>command_rejected.v1\<close>, for which \<^verbatim>\<open>validateEvent\<close> computes the key
  \<^verbatim>\<open>command_rejected.v1.v1.json\<close>. With the schema registered under its
  documented file name, \<^verbatim>\<open>command_rejected.v1.json\<close>, the duplicate call does not
  return: the gate's error leaves \<^verbatim>\<open>handle\<close>, after one UUID and two clock readings
  were drawn and with nothing logged. Were the schema registered under the
  computed key, the same call would return the result the claim describes.
\<close>

theorem handle_duplicate_gate_error:
  "isProcessed (processedCommands world_cmd100) (command_id cmd100)
   \<and> getSchema conventional_runtime ''command_rejected.v1.json'' \<noteq> None
   \<and> handle conventional_runtime test_validate test_execute cmd100 world_cmd100
       = (Inl (Error ''No schema registered for command_rejected.v1 (expected command_rejected.v1.v1.json)''),
          after_emission world_cmd100, [])
   \<and> handle permissive_runtime test_validate test_execute cmd100 world_cmd100
       = (Inr \<lparr>success = False, event_id = None, rejection_event_id = Some ''uuid-0'',
                reason = Some ''Duplicate command''\<rparr>,
          after_emission world_cmd100,
          [ConsoleLog (duplicate_rejection permissive_runtime cmd100 world_cmd100)])"
proof -
  have registered: "getSchema conventional_runtime ''command_rejected.v1.json'' \<noteq> None"
    by (simp add: conventional_runtime_def)
  from world_cmd100_processed
  have "handle conventional_runtime test_validate test_execute cmd100 world_cmd100
       = (Inl (Error ''No schema registered for command_rejected.v1 (expected command_rejected.v1.v1.json)''),
          after_emission world_cmd100, [])"
    by (simp add: handle_duplicate_run duplicate_rejection_def gate_conventional)
  moreover from world_cmd100_processed
  have "handle permissive_runtime test_validate test_execute cmd100 world_cmd100
       = (Inr \<lparr>success = False, event_id = None, rejection_event_id = Some ''uuid-0'',
                reason = Some ''Duplicate command''\<rparr>,
          after_emission world_cmd100,
          [ConsoleLog (duplicate_rejection permissive_runtime cmd100 world_cmd100)])"
    by (simp add: handle_duplicate_run duplicate_rejection_def gate_permissive
        world_cmd100_readings)
  ultimately show ?thesis
    using registered world_cmd100_processed by simp
qed

text \<open>
  C3. When \<^verbatim>\<open>validate\<close> or \<^verbatim>\<open>execute\<close> raises an error, \<^verbatim>\<open>handle\<close> builds one
  event, the \<^verbatim>\<open>command_rejected.v1\<close> event for this command and error, stamped
  with a new id, and submits it to \<^verbatim>\<open>validateEvent\<close>. If the gate accepts it,
  \<^verbatim>\<open>handle\<close> logs exactly that event, after the calls it had made, and returns
  a failure result carrying the event's id and the error's message. If the gate
  refuses it, nothing is logged and the gate's error is what leaves \<^verbatim>\<open>handle\<close>.
  The error raised by \<^verbatim>\<open>validate\<close> or \<^verbatim>\<open>execute\<close> itself never does.
\<close>

theorem handle_converts_errors:
  assumes fresh: "\<not> isProcessed (processedCommands w) (command_id c)"
      and raised: "validate c w = (Some err, w1)
                   \<or> (validate c w = (None, w0) \<and> execute c w0 = (Inl err, w1))"
  shows "handle rt validate execute c w =
           (case validateEvent rt (expected_rejection rt c err w1) of
              Inl e \<Rightarrow>
                (Inl e, after_emission w1, invoked_before_rejection (fst (validate c w)))
            | Inr u \<Rightarrow>
                (Inr \<lparr>success = False, event_id = None,
                      rejection_event_id = Some (uuid_source rt (uuid_calls w1)),
                      reason = Some (message err)\<rparr>,
                 after_emission w1,
                 invoked_before_rejection (fst (validate c w))
                   @ [ConsoleLog (expected_rejection rt c err w1)]))
       \<and> set (invoked_before_rejection (fst (validate c w))) \<subseteq> {Validate, Execute}
       \<and> getProp (expected_rejection rt c err w1) ''event_type'' = JStr ''command_rejected.v1''
       \<and> getProp (expected_rejection rt c err w1) ''event_id''
           = JStr (uuid_source rt (uuid_calls w1))
       \<and> getProp (getProp (expected_rejection rt c err w1) ''payload'') ''command_id''
           = JStr (command_id c)"
proof -
  have "set (invoked_before_rejection (fst (validate c w))) \<subseteq> {Validate, Execute}"
    by (simp add: invoked_before_rejection_def split: option.splits)
  with handle_raised_run [where rt = rt and validate = validate and execute = execute
      and c = c and w = w and err = err and ?w1.0 = w1 and ?w0.0 = w0] fresh raised
  show ?thesis
    by (simp add: expected_rejection_fields)
qed

theorem handle_converts_errors_witness:
  "\<not> isProcessed (processedCommands fresh_world) (command_id cmd_fail)
   \<and> test_validate cmd_fail fresh_world = (None, fresh_world)
   \<and> test_execute cmd_fail fresh_world
       = (Inl (Error ''Business rule violation: Test failure''), fresh_world)
   \<and> handle permissive_runtime test_validate test_execute cmd_fail fresh_world
       = (Inr \<lparr>success = False, event_id = None, rejection_event_id = Some ''uuid-0'',
                reason = Some ''Business rule violation: Test failure''\<rparr>,
          after_emission fresh_world,
          [Validate, Execute,
           ConsoleLog (expected_rejection permissive_runtime cmd_fail
                         (Error ''Business rule violation: Test failure'') fresh_world)])
   \<and> validateEvent permissive_runtime
         (expected_rejection permissive_runtime cmd_fail
            (Error ''Business rule violation: Test failure'') fresh_world) = Inr ()
   \<and> handle conventional_runtime test_validate test_execute cmd_fail fresh_world
       = (Inl (Error ''No schema registered for command_rejected.v1 (expected command_rejected.v1.v1.json)''),
          after_emission fresh_world, [Validate, Execute])
   \<and> test_validate cmd_empty fresh_world
       = (Some (Error ''validation: Missing command_id''), fresh_world)
   \<and> handle permissive_runtime test_validate test_execute cmd_empty fresh_world
       = (Inr \<lparr>success = False, event_id = None, rejection_event_id = Some ''uuid-0'',
                reason = Some ''validation: Missing command_id''\<rparr>,
          after_emission fresh_world,
          [Validate,
           ConsoleLog (expected_rejection permissive_runtime cmd_empty
                         (Error ''validation: Missing command_id'') fresh_world)])"
proof -
  note t = handle_converts_errors [where w = fresh_world and ?w0.0 = fresh_world
      and ?w1.0 = fresh_world, OF fresh_world_unprocessed]
  note a = t [where c = cmd_fail and rt = permissive_runtime and validate = test_validate
      and execute = test_execute and err = "Error ''Business rule violation: Test failure''"]
  note b = t [where c = cmd_fail and rt = conventional_runtime and validate = test_validate
      and execute = test_execute and err = "Error ''Business rule violation: Test failure''"]
  note c = t [where c = cmd_empty and rt = permissive_runtime and validate = test_validate
      and execute = test_execute and err = "Error ''validation: Missing command_id''"]
  from a b c test_handler_cmd_fail test_handler_cmd_empty fresh_world_unprocessed
  show ?thesis
    by (simp add: expected_rejection_def gate_permissive gate_conventional fresh_readings
        invoked_before_rejection_def)
qed

lemma classified_metadata_amounts:
  "getProp (JObj (classified_metadata INSUFFICIENT_FUNDS m)) ''required_amount'' = JNum 0"
  "getProp (JObj (classified_metadata INSUFFICIENT_FUNDS m)) ''available_amount'' = JNum 0"
  "getProp (JObj (classified_metadata INVALID_STATE_TRANSITION m)) ''current_state''
     = JStr ''unknown''"
  "getProp (JObj (classified_metadata INVALID_STATE_TRANSITION m)) ''attempted_transition''
     = JStr ''unknown''"
  by simp_all

text \<open>
  C10. \<^verbatim>\<open>handleRejection\<close> submits one event to the gate, returns a failure
  result whose reason is the error's message when the gate accepts it, and
  rethrows the gate's error otherwise. The event's \<^verbatim>\<open>reason_code\<close> depends on the
  message alone: \<^verbatim>\<open>INVALID_SCHEMA\<close> if it contains \<^verbatim>\<open>validation\<close>; else
  \<^verbatim>\<open>INSUFFICIENT_FUNDS\<close>, with both amounts \<^verbatim>\<open>0\<close> in the metadata, if it contains
  \<^verbatim>\<open>insufficient funds\<close>; else \<^verbatim>\<open>INVALID_STATE_TRANSITION\<close>, with both states
  \<^verbatim>\<open>unknown\<close>, if it contains \<^verbatim>\<open>state transition\<close>; else
  \<^verbatim>\<open>BUSINESS_RULE_VIOLATION\<close>. This is the rejection \<^verbatim>\<open>handle\<close> performs for an error
  raised by \<^verbatim>\<open>validate\<close> or \<^verbatim>\<open>execute\<close>. No event that any run of \<^verbatim>\<open>handle\<close> logs
  has the code \<^verbatim>\<open>AUTHORIZATION_FAILED\<close> or \<^verbatim>\<open>RATE_LIMIT_EXCEEDED\<close>.
\<close>

theorem handle_classifies_by_message:
  "handleRejection rt c err w1 =
     (case validateEvent rt (expected_rejection rt c err w1) of
        Inl e \<Rightarrow> (Inl e, after_emission w1, [])
      | Inr u \<Rightarrow>
          (Inr \<lparr>success = False, event_id = None,
                rejection_event_id = Some (uuid_source rt (uuid_calls w1)),
                reason = Some (message err)\<rparr>,
           after_emission w1, [ConsoleLog (expected_rejection rt c err w1)]))
 \<and> getProp (getProp (expected_rejection rt c err w1) ''payload'') ''reason_code'' =
      JStr (if str_includes (message err) ''validation'' then ''INVALID_SCHEMA''
            else if str_includes (message err) ''insufficient funds''
            then ''INSUFFICIENT_FUNDS''
            else if str_includes (message err) ''state transition''
            then ''INVALID_STATE_TRANSITION''
            else ''BUSINESS_RULE_VIOLATION'')
 \<and> getProp (getProp (expected_rejection rt c err w1) ''payload'') ''metadata'' =
      JObj (classified_metadata (classified_reason (message err)) (message err))
 \<and> (\<not> str_includes (message err) ''validation''
      \<and> str_includes (message err) ''insufficient funds'' \<longrightarrow>
        getProp (getProp (getProp (expected_rejection rt c err w1) ''payload'') ''metadata'')
          ''required_amount'' = JNum 0
      \<and> getProp (getProp (getProp (expected_rejection rt c err w1) ''payload'') ''metadata'')
          ''available_amount'' = JNum 0)
 \<and> (\<not> str_includes (message err) ''validation''
      \<and> \<not> str_includes (message err) ''insufficient funds''
      \<and> str_includes (message err) ''state transition'' \<longrightarrow>
        getProp (getProp (getProp (expected_rejection rt c err w1) ''payload'') ''metadata'')
          ''current_state'' = JStr ''unknown''
      \<and> getProp (getProp (getProp (expected_rejection rt c err w1) ''payload'') ''metadata'')
          ''attempted_transition'' = JStr ''unknown'')
 \<and> (\<not> isProcessed (processedCommands w) (command_id c)
      \<and> (validate c w = (Some err, w1)
          \<or> (validate c w = (None, w0) \<and> execute c w0 = (Inl err, w1))) \<longrightarrow>
        handle rt validate execute c w =
          (case handleRejection rt c err w1 of
             (r, w', fx) \<Rightarrow> (r, w', invoked_before_rejection (fst (validate c w)) @ fx)))
 \<and> (\<forall>ev. ConsoleLog ev \<in> set (effects_of (handle rt validate execute c w)) \<longrightarrow>
        getProp (getProp ev ''payload'') ''reason_code'' \<noteq> JStr ''AUTHORIZATION_FAILED''
      \<and> getProp (getProp ev ''payload'') ''reason_code'' \<noteq> JStr ''RATE_LIMIT_EXCEEDED'')"
proof -
  have code: "getProp (getProp (expected_rejection rt c err w1) ''payload'') ''reason_code'' =
      JStr (if str_includes (message err) ''validation'' then ''INVALID_SCHEMA''
            else if str_includes (message err) ''insufficient funds''
            then ''INSUFFICIENT_FUNDS''
            else if str_includes (message err) ''state transition''
            then ''INVALID_STATE_TRANSITION''
            else ''BUSINESS_RULE_VIOLATION'')"
    by (simp add: expected_rejection_fields classified_reason_def)
  have funds: "\<not> str_includes (message err) ''validation''
      \<and> str_includes (message err) ''insufficient funds'' \<longrightarrow>
        getProp (getProp (getProp (expected_rejection rt c err w1) ''payload'') ''metadata'')
          ''required_amount'' = JNum 0
      \<and> getProp (getProp (getProp (expected_rejection rt c err w1) ''payload'') ''metadata'')
          ''available_amount'' = JNum 0"
    by (simp add: expected_rejection_fields classified_reason_def)
  have state: "\<not> str_includes (message err) ''validation''
      \<and> \<not> str_includes (message err) ''insufficient funds''
      \<and> str_includes (message err) ''state transition'' \<longrightarrow>
        getProp (getProp (getProp (expected_rejection rt c err w1) ''payload'') ''metadata'')
          ''current_state'' = JStr ''unknown''
      \<and> getProp (getProp (getProp (expected_rejection rt c err w1) ''payload'') ''metadata'')
          ''attempted_transition'' = JStr ''unknown''"
    by (simp add: expected_rejection_fields classified_reason_def)
  have link: "\<not> isProcessed (processedCommands w) (command_id c)
      \<and> (validate c w = (Some err, w1)
          \<or> (validate c w = (None, w0) \<and> execute c w0 = (Inl err, w1))) \<longrightarrow>
        handle rt validate execute c w =
          (case handleRejection rt c err w1 of
             (r, w', fx) \<Rightarrow> (r, w', invoked_before_rejection (fst (validate c w)) @ fx))"
    by (auto simp: handle_validate_throws handle_execute_rejects invoked_before_rejection_def)
  have never: "\<forall>ev. ConsoleLog ev \<in> set (effects_of (handle rt validate execute c w)) \<longrightarrow>
        getProp (getProp ev ''payload'') ''reason_code'' \<noteq> JStr ''AUTHORIZATION_FAILED''
      \<and> getProp (getProp ev ''payload'') ''reason_code'' \<noteq> JStr ''RATE_LIMIT_EXCEEDED''"
  proof (intro allI impI)
    fix ev
    assume "ConsoleLog ev \<in> set (effects_of (handle rt validate execute c w))"
    from handle_logged_code [OF this]
    show "getProp (getProp ev ''payload'') ''reason_code'' \<noteq> JStr ''AUTHORIZATION_FAILED''
      \<and> getProp (getProp ev ''payload'') ''reason_code'' \<noteq> JStr ''RATE_LIMIT_EXCEEDED''"
      by auto
  qed
  from handleRejection_run [of rt c err w1] code funds state link never show ?thesis
    by (simp only: expected_rejection_fields simp_thms)
qed

lemma gate_permissive_expected:
  "validateEvent permissive_runtime (expected_rejection permissive_runtime c err w) = Inr ()"
  by (simp add: expected_rejection_def gate_permissive)

theorem handle_classifies_by_message_witness:
  "\<not> isProcessed (processedCommands fresh_world) (command_id cmd100)
   \<and> (handle permissive_runtime passing_validate
         (raising_execute ''insufficient funds in source account'') cmd100 fresh_world
       = (Inr \<lparr>success = False, event_id = None, rejection_event_id = Some ''uuid-0'',
                reason = Some ''insufficient funds in source account''\<rparr>,
          after_emission fresh_world,
          [Validate, Execute,
           ConsoleLog
             (expected_rejection permissive_runtime cmd100
              (Error ''insufficient funds in source account'') fresh_world)])
     \<and> getProp (getProp
             (expected_rejection permissive_runtime cmd100
              (Error ''insufficient funds in source account'') fresh_world)
           ''payload'') ''reason_code'' = JStr ''INSUFFICIENT_FUNDS''
     \<and> getProp (getProp (getProp
             (expected_rejection permissive_runtime cmd100
              (Error ''insufficient funds in source account'') fresh_world)
           ''payload'') ''metadata'') ''required_amount'' = JNum 0
     \<and> getProp (getProp (getProp
             (expected_rejection permissive_runtime cmd100
              (Error ''insufficient funds in source account'') fresh_world)
           ''payload'') ''metadata'') ''available_amount'' = JNum 0)
   \<and> (handle permissive_runtime passing_validate
         (raising_execute ''illegal state transition requested'') cmd100 fresh_world
       = (Inr \<lparr>success = False, event_id = None, rejection_event_id = Some ''uuid-0'',
                reason = Some ''illegal state transition requested''\<rparr>,
          after_emission fresh_world,
          [Validate, Execute,
           ConsoleLog
             (expected_rejection permissive_runtime cmd100
              (Error ''illegal state transition requested'') fresh_world)])
     \<and> getProp (getProp
             (expected_rejection permissive_runtime cmd100
              (Error ''illegal state transition requested'') fresh_world)
           ''payload'') ''reason_code'' = JStr ''INVALID_STATE_TRANSITION''
     \<and> getProp (getProp (getProp
             (expected_rejection permissive_runtime cmd100
              (Error ''illegal state transition requested'') fresh_world)
           ''payload'') ''metadata'') ''current_state'' = JStr ''unknown''
     \<and> getProp (getProp (getProp
             (expected_rejection permissive_runtime cmd100
              (Error ''illegal state transition requested'') fresh_world)
           ''payload'') ''metadata'') ''attempted_transition'' = JStr ''unknown'')
   \<and> (handle permissive_runtime passing_validate
         (raising_execute ''Business rule violation: limit exceeded'') cmd100 fresh_world
       = (Inr \<lparr>success = False, event_id = None, rejection_event_id = Some ''uuid-0'',
                reason = Some ''Business rule violation: limit exceeded''\<rparr>,
          after_emission fresh_world,
          [Validate, Execute,
           ConsoleLog
             (expected_rejection permissive_runtime cmd100
              (Error ''Business rule violation: limit exceeded'') fresh_world)])
     \<and> getProp (getProp
             (expected_rejection permissive_runtime cmd100
              (Error ''Business rule violation: limit exceeded'') fresh_world)
           ''payload'') ''reason_code'' = JStr ''BUSINESS_RULE_VIOLATION'')
   \<and> (handle permissive_runtime passing_validate
         (raising_execute ''validation found insufficient funds'') cmd100 fresh_world
       = (Inr \<lparr>success = False, event_id = None, rejection_event_id = Some ''uuid-0'',
                reason = Some ''validation found insufficient funds''\<rparr>,
          after_emission fresh_world,
          [Validate, Execute,
           ConsoleLog
             (expected_rejection permissive_runtime cmd100
              (Error ''validation found insufficient funds'') fresh_world)])
     \<and> getProp (getProp
             (expected_rejection permissive_runtime cmd100
              (Error ''validation found insufficient funds'') fresh_world)
           ''payload'') ''reason_code'' = JStr ''INVALID_SCHEMA'')"
proof -
  have collaborators:
    "passing_validate cmd100 fresh_world = (None, fresh_world)"
    "raising_execute msg cmd100 fresh_world = (Inl (Error msg), fresh_world)" for msg
    by (simp_all add: passing_validate_def raising_execute_def)
  note t0 = handle_classifies_by_message
      [where rt = permissive_runtime and c = cmd100 and w = fresh_world
         and ?w0.0 = fresh_world and ?w1.0 = fresh_world and validate = passing_validate
         and execute = "raising_execute ''insufficient funds in source account''"
         and err = "Error ''insufficient funds in source account''"]
  from t0 collaborators fresh_world_unprocessed
  have r0: "handle permissive_runtime passing_validate
         (raising_execute ''insufficient funds in source account'') cmd100 fresh_world
       = (Inr \<lparr>success = False, event_id = None, rejection_event_id = Some ''uuid-0'',
                reason = Some ''insufficient funds in source account''\<rparr>,
          after_emission fresh_world,
          [Validate, Execute,
           ConsoleLog
             (expected_rejection permissive_runtime cmd100
              (Error ''insufficient funds in source account'') fresh_world)])
     \<and> getProp (getProp
             (expected_rejection permissive_runtime cmd100
              (Error ''insufficient funds in source account'') fresh_world)
           ''payload'') ''reason_code'' = JStr ''INSUFFICIENT_FUNDS''
     \<and> getProp (getProp (getProp
             (expected_rejection permissive_runtime cmd100
              (Error ''insufficient funds in source account'') fresh_world)
           ''payload'') ''metadata'') ''required_amount'' = JNum 0
     \<and> getProp (getProp (getProp
             (expected_rejection permissive_runtime cmd100
              (Error ''insufficient funds in source account'') fresh_world)
           ''payload'') ''metadata'') ''available_amount'' = JNum 0"
    by (elim conjE)
       (simp add: gate_permissive_expected fresh_readings invoked_before_rejection_def)
  note t1 = handle_classifies_by_message
      [where rt = permissive_runtime and c = cmd100 and w = fresh_world
         and ?w0.0 = fresh_world and ?w1.0 = fresh_world and validate = passing_validate
         and execute = "raising_execute ''illegal state transition requested''"
         and err = "Error ''illegal state transition requested''"]
  from t1 collaborators fresh_world_unprocessed
  have r1: "handle permissive_runtime passing_validate
         (raising_execute ''illegal state transition requested'') cmd100 fresh_world
       = (Inr \<lparr>success = False, event_id = None, rejection_event_id = Some ''uuid-0'',
                reason = Some ''illegal state transition requested''\<rparr>,
          after_emission fresh_world,
          [Validate, Execute,
           ConsoleLog
             (expected_rejection permissive_runtime cmd100
              (Error ''illegal state transition requested'') fresh_world)])
     \<and> getProp (getProp
             (expected_rejection permissive_runtime cmd100
              (Error ''illegal state transition requested'') fresh_world)
           ''payload'') ''reason_code'' = JStr ''INVALID_STATE_TRANSITION''
     \<and> getProp (getProp (getProp
             (expected_rejection permissive_runtime cmd100
              (Error ''illegal state transition requested'') fresh_world)
           ''payload'') ''metadata'') ''current_state'' = JStr ''unknown''
     \<and> getProp (getProp (getProp
             (expected_rejection permissive_runtime cmd100
              (Error ''illegal state transition requested'') fresh_world)
           ''payload'') ''metadata'') ''attempted_transition'' = JStr ''unknown''"
    by (elim conjE)
       (simp add: gate_permissive_expected fresh_readings invoked_before_rejection_def)
  note t2 = handle_classifies_by_message
      [where rt = permissive_runtime and c = cmd100 and w = fresh_world
         and ?w0.0 = fresh_world and ?w1.0 = fresh_world and validate = passing_validate
         and execute = "raising_execute ''Business rule violation: limit exceeded''"
         and err = "Error ''Business rule violation: limit exceeded''"]
  from t2 collaborators fresh_world_unprocessed
  have r2: "handle permissive_runtime passing_validate
         (raising_execute ''Business rule violation: limit exceeded'') cmd100 fresh_world
       = (Inr \<lparr>success = False, event_id = None, rejection_event_id = Some ''uuid-0'',
                reason = Some ''Business rule violation: limit exceeded''\<rparr>,
          after_emission fresh_world,
          [Validate, Execute,
           ConsoleLog
             (expected_rejection permissive_runtime cmd100
              (Error ''Business rule violation: limit exceeded'') fresh_world)])
     \<and> getProp (getProp
             (expected_rejection permissive_runtime cmd100
              (Error ''Business rule violation: limit exceeded'') fresh_world)
           ''payload'') ''reason_code'' = JStr ''BUSINESS_RULE_VIOLATION''"
    by (elim conjE)
       (simp add: gate_permissive_expected fresh_readings invoked_before_rejection_def)
  note t3 = handle_classifies_by_message
      [where rt = permissive_runtime and c = cmd100 and w = fresh_world
         and ?w0.0 = fresh_world and ?w1.0 = fresh_world and validate = passing_validate
         and execute = "raising_execute ''validation found insufficient funds''"
         and err = "Error ''validation found insufficient funds''"]
  from t3 collaborators fresh_world_unprocessed
  have r3: "handle permissive_runtime passing_validate
         (raising_execute ''validation found insufficient funds'') cmd100 fresh_world
       = (Inr \<lparr>success = False, event_id = None, rejection_event_id = Some ''uuid-0'',
                reason = Some ''validation found insufficient funds''\<rparr>,
          after_emission fresh_world,
          [Validate, Execute,
           ConsoleLog
             (expected_rejection permissive_runtime cmd100
              (Error ''validation found insufficient funds'') fresh_world)])
     \<and> getProp (getProp
             (expected_rejection permissive_runtime cmd100
              (Error ''validation found insufficient funds'') fresh_world)
           ''payload'') ''reason_code'' = JStr ''INVALID_SCHEMA''"
    by (elim conjE)
       (simp add: gate_permissive_expected fresh_readings invoked_before_rejection_def)
  from r0 r1 r2 r3 fresh_world_unprocessed show ?thesis by simp
qed

section \<open>The round trip of schema names\<close>

text \<open>The first two stages of \<^verbatim>\<open>toSnakeCase\<close>: mark the capitals, then lower the case.\<close>

lemma mark_lower_plain:
  assumes "list_all (\<lambda>d. is_lower d \<or> is_digit d) cs"
  shows "toLowerCase (concat (map (\<lambda>c. if is_upper c then [CHR ''_'', c] else [c]) cs)) = cs"
  using assms
  by (induction cs)
     (auto simp: toLowerCase_def toLowerChar_def is_lower_def is_digit_def is_upper_def)

lemma mark_lower_word:
  assumes "is_snake_word word"
  shows "toLowerCase (concat (map (\<lambda>c. if is_upper c then [CHR ''_'', c] else [c])
                               (capitalize word)))
         = (if starts_with_letter word then CHR ''_'' # word else word)"
proof -
  from assms obtain c cs where w: "word = c # cs"
    and c: "is_lower c \<or> is_digit c"
    and cs: "list_all (\<lambda>d. is_lower d \<or> is_digit d) cs"
    by (cases word) (auto simp: is_snake_word_def)
  have low: "toLowerChar CHR ''_'' = CHR ''_''"
    by (simp add: toLowerChar_def is_upper_def)
  note rest = mark_lower_plain [OF cs]
  show ?thesis
  proof (cases "is_lower c")
    case True
    with rest upper_of_lower [OF True] low show ?thesis
      by (simp add: w capitalize_def toLowerCase_def starts_with_letter_def)
  next
    case False
    with c have d: "is_digit c" by simp
    then have "toUpperChar c = c" "\<not> is_upper c" "toLowerChar c = c"
      by (auto simp: toUpperChar_def toLowerChar_def is_lower_def is_digit_def is_upper_def)
    with rest False show ?thesis
      by (simp add: w capitalize_def toLowerCase_def starts_with_letter_def)
  qed
qed

lemma mark_lower_words:
  assumes "list_all is_snake_word ws"
  shows "toLowerCase (concat (map (\<lambda>c. if is_upper c then [CHR ''_'', c] else [c])
                               (concat (map capitalize ws))))
         = concat (map (\<lambda>w. if starts_with_letter w then CHR ''_'' # w else w) ws)"
  using assms
proof (induction ws)
  case Nil
  then show ?case by (simp add: toLowerCase_def)
next
  case (Cons w ws)
  from Cons.prems have w: "is_snake_word w" and ws: "list_all is_snake_word ws" by simp_all
  from mark_lower_word [OF w] Cons.IH [OF ws] show ?case
    by (simp add: toLowerCase_def)
qed

text \<open>Dropping the marks costs one character for every word that starts with a digit.\<close>

lemma unmarked_length:
  "length (concat (map (\<lambda>w. if starts_with_letter w then CHR ''_'' # w else w) ws))
     + length (filter (\<lambda>w. \<not> starts_with_letter w) ws)
   = length (concat (map ((#) CHR ''_'') ws))"
  by (induction ws) auto

lemma marks_kept_iff:
  "concat (map (\<lambda>w. if starts_with_letter w then CHR ''_'' # w else w) ws)
     = concat (map ((#) CHR ''_'') ws)
   \<longleftrightarrow> list_all starts_with_letter ws"
proof
  assume "concat (map (\<lambda>w. if starts_with_letter w then CHR ''_'' # w else w) ws)
     = concat (map ((#) CHR ''_'') ws)"
  with unmarked_length [of ws] have "filter (\<lambda>w. \<not> starts_with_letter w) ws = []"
    by simp
  then show "list_all starts_with_letter ws"
    by (simp add: filter_empty_conv list_all_iff)
next
  assume "list_all starts_with_letter ws"
  then have "map (\<lambda>w. if starts_with_letter w then CHR ''_'' # w else w) ws
     = map ((#) CHR ''_'') ws"
    by (simp add: list_all_iff)
  then show "concat (map (\<lambda>w. if starts_with_letter w then CHR ''_'' # w else w) ws)
     = concat (map ((#) CHR ''_'') ws)"
    by (rule arg_cong [where f = concat])
qed

text \<open>What the two conversions make of a snake_case name.\<close>

lemma toSnakeCase_toPascalCase:
  assumes "snake_case name"
  shows "toSnakeCase (toPascalCase name) = name \<longleftrightarrow> later_words_start_with_letter name"
proof -
  obtain w1 rest where ws: "splitStr CHR ''_'' name = w1 # rest"
    using splitStr_nonempty [of "CHR ''_''" name] by (cases "splitStr CHR ''_'' name") auto
  from assms ws have w1: "is_snake_word w1" and rest: "list_all is_snake_word rest"
    by (simp_all add: snake_case_def)
  let ?kept = "concat (map (\<lambda>w. if starts_with_letter w then CHR ''_'' # w else w) rest)"
  from split_join [of "CHR ''_''" name] ws
  have name: "name = w1 @ concat (map ((#) CHR ''_'') rest)" by simp
  from w1 obtain c cs where c: "w1 = c # cs" "is_lower c \<or> is_digit c"
    by (cases w1) (auto simp: is_snake_word_def)
  then have no_mark: "c \<noteq> CHR ''_''"
    by (auto simp: is_lower_def is_digit_def)
  from mark_lower_words [of "w1 # rest"] w1 rest ws
  have "toLowerCase (concat (map (\<lambda>c. if is_upper c then [CHR ''_'', c] else [c])
                               (toPascalCase name)))
         = (if starts_with_letter w1 then CHR ''_'' # w1 else w1) @ ?kept"
    by (simp add: toPascalCase_def)
  with c no_mark have "toSnakeCase (toPascalCase name) = w1 @ ?kept"
    by (simp add: toSnakeCase_def)
  with name have "toSnakeCase (toPascalCase name) = name
      \<longleftrightarrow> ?kept = concat (map ((#) CHR ''_'') rest)"
    by (metis same_append_eq)
  with marks_kept_iff [of rest] ws show ?thesis
    by (simp add: later_words_start_with_letter_def)
qed

lemma replace_first_suffix:
  assumes "CHR ''.'' \<notin> set name"
  shows "replace_first (CHR ''.'' # ext) [] (name @ CHR ''.'' # ext) = name"
  using assms by (induction name) auto

lemma snake_word_no_dot: "is_snake_word w \<Longrightarrow> CHR ''.'' \<notin> set w"
  by (auto simp: is_snake_word_def is_lower_def is_digit_def list_all_iff)

lemma in_splitStr:
  "x \<in> set s \<Longrightarrow> x \<noteq> sep \<Longrightarrow> \<exists>w \<in> set (splitStr sep s). x \<in> set w"
  by (induction s) (auto split: list.splits)

lemma snake_case_no_dot:
  assumes "snake_case name"
  shows "CHR ''.'' \<notin> set name"
proof
  assume "CHR ''.'' \<in> set name"
  with in_splitStr [of "CHR ''.''" name "CHR ''_''"] obtain w where
    "w \<in> set (splitStr CHR ''_'' name)" "CHR ''.'' \<in> set w"
    by auto
  with assms snake_word_no_dot [of w] show False
    by (auto simp: snake_case_def list_all_iff)
qed

lemma strip_suffix:
  assumes "snake_case name"
  shows "replace_first ''.v1.json'' [] (name @ ''.v1.json'') = name"
  using replace_first_suffix [OF snake_case_no_dot [OF assms], of "''v1.json''"] by simp

lemma event_schema_fileD:
  assumes "is_event_schema_file f"
  shows "\<exists>name. f = name @ ''.v1.json'' \<and> snake_case name \<and> later_words_start_with_letter name"
proof -
  from assms obtain name where f: "f = name @ ''.v1.json''"
    by (auto simp: is_event_schema_file_def suffix_def)
  with assms have "snake_case name \<and> later_words_start_with_letter name"
    by (simp add: is_event_schema_file_def)
  with f show ?thesis by blast
qed

text \<open>
  C7 (as amended). For a snake_case name, the file \<^verbatim>\<open>name.v1.json\<close> is mapped by
  \<^verbatim>\<open>getSupportedEventTypes\<close> (strip \<^verbatim>\<open>.v1.json\<close>, convert to PascalCase) to an
  event type from which \<^verbatim>\<open>validateEvent\<close> (convert to snake_case, append
  \<^verbatim>\<open>.v1.json\<close>) computes the same file name again exactly when every word of the
  name after the first starts with a letter. Hence, when every schema file of
  the directory is such a file, mapping the schema names of the supported event
  types gives back the registered files other than the envelope, in order.
\<close>

theorem name_mapping_round_trips:
  "(snake_case name \<longrightarrow>
      (toSnakeCase (toPascalCase (replace_first ''.v1.json'' [] (name @ ''.v1.json'')))
         @ ''.v1.json'' = name @ ''.v1.json'')
      = later_words_start_with_letter name)
 \<and> (list_all is_event_schema_file (schemaFiles dir) \<longrightarrow>
      map (\<lambda>event_type. toSnakeCase event_type @ ''.v1.json'')
          (getSupportedEventTypes (schemaFiles dir))
        = filter (\<lambda>f. f \<noteq> ''envelope.v1.json'') (schemaFiles dir))"
proof (intro conjI impI)
  assume "snake_case name"
  with toSnakeCase_toPascalCase [of name] strip_suffix [of name]
  show "(toSnakeCase (toPascalCase (replace_first ''.v1.json'' [] (name @ ''.v1.json'')))
         @ ''.v1.json'' = name @ ''.v1.json'')
      = later_words_start_with_letter name"
    by simp
next
  assume all: "list_all is_event_schema_file (schemaFiles dir)"
  have "map (\<lambda>event_type. toSnakeCase event_type @ ''.v1.json'')
          (getSupportedEventTypes files)
        = filter (\<lambda>f. f \<noteq> ''envelope.v1.json'') files"
    if "list_all is_event_schema_file files" for files
    using that
  proof (induction files)
    case Nil
    then show ?case by (simp add: getSupportedEventTypes_def)
  next
    case (Cons f files)
    from Cons.prems have f: "is_event_schema_file f"
      and rest: "list_all is_event_schema_file files" by simp_all
    from event_schema_fileD [OF f] obtain name where
      n: "f = name @ ''.v1.json''" "snake_case name" "later_words_start_with_letter name"
      by blast
    with toSnakeCase_toPascalCase [of name] strip_suffix [of name]
    have "toSnakeCase (toPascalCase (replace_first ''.v1.json'' [] f)) @ ''.v1.json'' = f"
      by simp
    with Cons.IH [OF rest] show ?case
      by (simp add: getSupportedEventTypes_def)
  qed
  from this [OF all]
  show "map (\<lambda>event_type. toSnakeCase event_type @ ''.v1.json'')
          (getSupportedEventTypes (schemaFiles dir))
        = filter (\<lambda>f. f \<noteq> ''envelope.v1.json'') (schemaFiles dir)" .
qed

lemma schema_dir_files:
  "schemaFiles schema_dir_listing
     = [''envelope.v1.json'', ''payment_initiated.v1.json'', ''payment_settled.v1.json'']"
  by (simp add: schemaFiles_def schema_dir_listing_def suffix_def)

lemma snake_examples:
  "snake_case ''payment_settled''" "snake_case ''payment_initiated''" "snake_case ''envelope''"
  "later_words_start_with_letter ''payment_settled''"
  "later_words_start_with_letter ''payment_initiated''"
  "later_words_start_with_letter ''envelope''"
  "snake_case ''iso_20022_received''"
  "\<not> later_words_start_with_letter ''iso_20022_received''"
  by code_simp+

lemma pascal_examples:
  "toPascalCase ''payment_settled'' = ''PaymentSettled''"
  "toPascalCase ''payment_initiated'' = ''PaymentInitiated''"
  "toPascalCase ''iso_20022_received'' = ''Iso20022Received''"
  "toSnakeCase ''Iso20022Received'' = ''iso20022_received''"
  by code_simp+

lemma strip_examples:
  "replace_first ''.v1.json'' [] ''payment_settled.v1.json'' = ''payment_settled''"
  "replace_first ''.v1.json'' [] ''payment_initiated.v1.json'' = ''payment_initiated''"
  "replace_first ''.v1.json'' [] ''iso_20022_received.v1.json'' = ''iso_20022_received''"
  by simp_all

text \<open>
  A snake_case schema file on which the claim fails: a word that starts with a
  digit gets no capital, so no underscore marks where it began, and the name
  computed for the event type \<^verbatim>\<open>Iso20022Received\<close> is not the file it came from.
\<close>

theorem digit_word_not_recovered:
  "snake_case ''iso_20022_received''
   \<and> suffix ''.v1.json'' ''iso_20022_received.v1.json''
   \<and> ''iso_20022_received.v1.json'' \<noteq> ''envelope.v1.json''
   \<and> toPascalCase (replace_first ''.v1.json'' [] ''iso_20022_received.v1.json'')
       = ''Iso20022Received''
   \<and> toSnakeCase (toPascalCase (replace_first ''.v1.json'' [] ''iso_20022_received.v1.json''))
        @ ''.v1.json'' = ''iso20022_received.v1.json''
   \<and> ''iso20022_received.v1.json'' \<noteq> ''iso_20022_received.v1.json''
   \<and> schemaFiles [''envelope.v1.json'', ''iso_20022_received.v1.json'']
       = [''envelope.v1.json'', ''iso_20022_received.v1.json'']
   \<and> getSupportedEventTypes (schemaFiles [''envelope.v1.json'', ''iso_20022_received.v1.json''])
       = [''Iso20022Received'']
   \<and> map (\<lambda>event_type. toSnakeCase event_type @ ''.v1.json'')
         (getSupportedEventTypes (schemaFiles [''envelope.v1.json'', ''iso_20022_received.v1.json'']))
       = [''iso20022_received.v1.json'']"
  using snake_examples
  by (simp add: strip_examples pascal_examples schemaFiles_def getSupportedEventTypes_def suffix_def)

theorem name_mapping_round_trips_witness:
  "snake_case ''payment_settled''
   \<and> later_words_start_with_letter ''payment_settled''
   \<and> toPascalCase (replace_first ''.v1.json'' [] ''payment_settled.v1.json'') = ''PaymentSettled''
   \<and> toSnakeCase (toPascalCase (replace_first ''.v1.json'' [] ''payment_settled.v1.json''))
        @ ''.v1.json'' = ''payment_settled.v1.json''
   \<and> list_all is_event_schema_file (schemaFiles schema_dir_listing)
   \<and> getSupportedEventTypes (schemaFiles schema_dir_listing)
       = [''PaymentInitiated'', ''PaymentSettled'']
   \<and> map (\<lambda>event_type. toSnakeCase event_type @ ''.v1.json'')
          (getSupportedEventTypes (schemaFiles schema_dir_listing))
       = [''payment_initiated.v1.json'', ''payment_settled.v1.json'']"
proof -
  have files: "list_all is_event_schema_file (schemaFiles schema_dir_listing)"
    using snake_examples
    by (simp add: schema_dir_files is_event_schema_file_def suffix_def)
  have types: "getSupportedEventTypes (schemaFiles schema_dir_listing)
       = [''PaymentInitiated'', ''PaymentSettled'']"
    by (simp add: schema_dir_files getSupportedEventTypes_def strip_examples pascal_examples)
  from name_mapping_round_trips [of "''payment_settled''" schema_dir_listing]
    snake_examples files types strip_examples pascal_examples
  show ?thesis
    by (simp add: schema_dir_files)
qed

end
